theory Spec2Isabelle
  imports Complex_Main
begin

section \<open>Numeric values and errors\<close>

text \<open>
  A Python or numpy float is idealised here: a finite value is a real number (overflow
  is not modelled, zero carries no sign, and rounding is modelled in one place only, the
  mean of a pandas series), and the three special values of IEEE 754 arithmetic that
  numpy produces instead of raising are explicit constructors. Arrays handed in by a caller hold finite values, so they are
  \<open>real list\<close>s; a value that an operation of the program may turn into an infinity or
  a nan is an \<open>npfloat\<close>.
\<close>

datatype npfloat = Fin real | PInf | NInf | NaN

text \<open>The exceptions that the modelled code or the library calls in it can raise.\<close>

datatype error = ValueError string | TypeError string | IndexError string
  | ZeroDivisionError string

definition ebind :: "error + 'a \<Rightarrow> ('a \<Rightarrow> error + 'b) \<Rightarrow> error + 'b" where
  "ebind m f = (case m of Inl e \<Rightarrow> Inl e | Inr v \<Rightarrow> f v)"

fun np_neg :: "npfloat \<Rightarrow> npfloat" where
  "np_neg (Fin a) = Fin (- a)"
| "np_neg PInf = NInf"
| "np_neg NInf = PInf"
| "np_neg NaN = NaN"

fun np_add :: "npfloat \<Rightarrow> npfloat \<Rightarrow> npfloat" where
  "np_add (Fin a) (Fin b) = Fin (a + b)"
| "np_add NaN b = NaN"
| "np_add a NaN = NaN"
| "np_add PInf NInf = NaN"
| "np_add NInf PInf = NaN"
| "np_add PInf b = PInf"
| "np_add a PInf = PInf"
| "np_add NInf b = NInf"
| "np_add a NInf = NInf"

definition np_sub :: "npfloat \<Rightarrow> npfloat \<Rightarrow> npfloat" where
  "np_sub a b = np_add a (np_neg b)"

text \<open>The sign of a value that is not nan: \<open>-1\<close>, \<open>0\<close> or \<open>1\<close>.\<close>

fun np_sign :: "npfloat \<Rightarrow> int" where
  "np_sign (Fin a) = (if a < 0 then - 1 else if a = 0 then 0 else 1)"
| "np_sign PInf = 1"
| "np_sign NInf = - 1"
| "np_sign NaN = 0"

definition inf_of_sign :: "int \<Rightarrow> npfloat" where
  "inf_of_sign s = (if s = 0 then NaN else if 0 < s then PInf else NInf)"

fun np_mul :: "npfloat \<Rightarrow> npfloat \<Rightarrow> npfloat" where
  "np_mul (Fin a) (Fin b) = Fin (a * b)"
| "np_mul NaN b = NaN"
| "np_mul a NaN = NaN"
| "np_mul a b = inf_of_sign (np_sign a * np_sign b)"

text \<open>
  numpy's true division of float64 scalars never raises: a finite value divided by zero
  is an infinity with the sign of the numerator, and \<open>0 / 0\<close> is nan (a RuntimeWarning
  is printed, no exception).
\<close>

fun np_div :: "npfloat \<Rightarrow> npfloat \<Rightarrow> npfloat" where
  "np_div (Fin a) (Fin b) = (if b = 0 then inf_of_sign (np_sign (Fin a)) else Fin (a / b))"
| "np_div NaN b = NaN"
| "np_div a NaN = NaN"
| "np_div (Fin a) b = Fin 0"
| "np_div a (Fin b) = inf_of_sign (np_sign a * (if b < 0 then - 1 else 1))"
| "np_div a b = NaN"

text \<open>\<open>np.sqrt\<close> of a negative number is nan (again a warning, not an exception).\<close>

definition np_sqrt :: "real \<Rightarrow> npfloat" where
  "np_sqrt a = (if a < 0 then NaN else Fin (sqrt a))"

text \<open>Comparisons: every comparison with nan is false.\<close>

fun np_eq :: "npfloat \<Rightarrow> npfloat \<Rightarrow> bool" where
  "np_eq NaN b = False"
| "np_eq a NaN = False"
| "np_eq a b = (a = b)"

fun np_le :: "npfloat \<Rightarrow> npfloat \<Rightarrow> bool" where
  "np_le NaN b = False"
| "np_le a NaN = False"
| "np_le (Fin a) (Fin b) = (a \<le> b)"
| "np_le NInf b = True"
| "np_le a PInf = True"
| "np_le a b = False"

fun np_lt :: "npfloat \<Rightarrow> npfloat \<Rightarrow> bool" where
  "np_lt a b = (np_le a b \<and> \<not> np_le b a)"

section \<open>numpy and pandas primitives\<close>

text \<open>
  An elementwise operation on two one-dimensional arrays broadcasts an array of length
  one and raises ValueError on any other difference of lengths.
\<close>

definition np_broadcast :: "(real \<Rightarrow> real \<Rightarrow> 'a) \<Rightarrow> real list \<Rightarrow> real list \<Rightarrow> error + 'a list" where
  "np_broadcast f xs ys =
     (if length xs = length ys then Inr (map2 f xs ys)
      else if length xs = 1 then Inr (map (f (hd xs)) ys)
      else if length ys = 1 then Inr (map (\<lambda>v. f v (hd ys)) xs)
      else Inl (ValueError ''operands could not be broadcast together''))"

text \<open>\<open>np.dot\<close> of two vectors, and of a matrix (a list of rows) with a vector.\<close>

definition np_dot :: "real list \<Rightarrow> real list \<Rightarrow> error + real" where
  "np_dot xs ys =
     (if length xs = length ys then Inr (sum_list (map2 (*) xs ys))
      else Inl (ValueError ''shapes not aligned''))"

definition np_matvec :: "real list list \<Rightarrow> real list \<Rightarrow> error + real list" where
  "np_matvec m v =
     (if list_all (\<lambda>row. length row = length v) m
      then Inr (map (\<lambda>row. sum_list (map2 (*) row v)) m)
      else Inl (ValueError ''shapes not aligned''))"

text \<open>
  \<open>np.percentile a q\<close> with numpy's default method (linear interpolation): the value
  at the virtual index \<open>q / 100 * (n - 1)\<close> of the sorted data, interpolated between
  the two neighbouring order statistics. A \<open>q\<close> outside \<open>[0, 100]\<close> raises
  ValueError, and an empty array raises IndexError.
\<close>

definition np_percentile :: "real list \<Rightarrow> real \<Rightarrow> error + npfloat" where
  "np_percentile a q =
     (if q < 0 \<or> 100 < q then Inl (ValueError ''Percentiles must be in the range [0, 100]'')
      else if a = [] then Inl (IndexError ''index -1 is out of bounds for axis 0 with size 0'')
      else let s = sort a;
               n = length a;
               vi = q / 100 * real (n - 1);
               lo = nat \<lfloor>vi\<rfloor>;
               hi = min (lo + 1) (n - 1);
               t = vi - real_of_int \<lfloor>vi\<rfloor>
           in Inr (Fin (s ! lo + (s ! hi - s ! lo) * t)))"

text \<open>
  The same percentile on data that an earlier operation may have turned into nan or an
  infinity: nan in the data gives nan; otherwise the data are sorted in the order of the
  extended reals and interpolated as numpy does, \<open>a + (b - a) * t\<close> below
  \<open>t = 0.5\<close> and \<open>b - (b - a) * (1 - t)\<close> from there on.
\<close>

fun np_insort :: "npfloat \<Rightarrow> npfloat list \<Rightarrow> npfloat list" where
  "np_insort v [] = [v]"
| "np_insort v (u # us) = (if np_le v u then v # u # us else u # np_insort v us)"

definition np_sort :: "npfloat list \<Rightarrow> npfloat list" where
  "np_sort vs = foldr np_insort vs []"

definition np_lerp :: "npfloat \<Rightarrow> npfloat \<Rightarrow> real \<Rightarrow> npfloat" where
  "np_lerp a b t =
     (if 1 / 2 \<le> t then np_sub b (np_mul (np_sub b a) (Fin (1 - t)))
      else np_add a (np_mul (np_sub b a) (Fin t)))"

definition np_percentile_ext :: "npfloat list \<Rightarrow> real \<Rightarrow> error + npfloat" where
  "np_percentile_ext a q =
     (if q < 0 \<or> 100 < q then Inl (ValueError ''Percentiles must be in the range [0, 100]'')
      else if a = [] then Inl (IndexError ''index -1 is out of bounds for axis 0 with size 0'')
      else if list_ex (\<lambda>v. v = NaN) a then Inr NaN
      else let s = np_sort a;
               n = length a;
               vi = q / 100 * real (n - 1);
               lo = nat \<lfloor>vi\<rfloor>;
               hi = min (lo + 1) (n - 1);
               t = vi - real_of_int \<lfloor>vi\<rfloor>
           in Inr (np_lerp (s ! lo) (s ! hi) t))"

text \<open>
  \<open>np.mean\<close> of an array: the sum divided by the number of elements, nan (with a
  warning, no exception) for an empty array.
\<close>

definition np_mean :: "npfloat list \<Rightarrow> npfloat" where
  "np_mean vs = np_div (foldl np_add (Fin 0) vs) (Fin (real (length vs)))"

text \<open>
  Rounding to the nearest binary64 number, ties to the even significand: \<open>fl x\<close> keeps
  53 significant bits of \<open>x\<close> (the exponent range is not bounded, so there is neither
  overflow nor a subnormal range).
\<close>

definition round_half_even :: "real \<Rightarrow> int" where
  "round_half_even x =
     (let f = \<lfloor>x\<rfloor>; r = x - real_of_int f
      in if r < 1 / 2 then f else if 1 / 2 < r then f + 1 else if even f then f else f + 1)"

definition pow2 :: "int \<Rightarrow> real" where
  "pow2 k = (if 0 \<le> k then 2 ^ nat k else 1 / 2 ^ nat (- k))"

definition fl :: "real \<Rightarrow> real" where
  "fl x =
     (if x = 0 then 0
      else let e = \<lfloor>log 2 \<bar>x\<bar>\<rfloor>; u = pow2 (e - 52)
           in real_of_int (round_half_even (x / u)) * u)"



text \<open>
  \<open>Series.std()\<close> of pandas is the sample standard deviation (\<open>ddof = 1\<close>), nan for
  fewer than two values.
\<close>

definition pd_std :: "real list \<Rightarrow> npfloat" where
  "pd_std xs =
     (if length xs \<le> 1 then NaN
      else let m = sum_list xs / real (length xs)
           in Fin (sqrt (sum_list (map (\<lambda>v. (v - m) ^ 2) xs) / real (length xs - 1))))"

section \<open>Metrics engine (src/metrics.py)\<close>

text \<open>
  A DataFrame of returns is the list of its rows, one row per period with one entry per
  asset. \<open>(returns * weights).sum(axis=1)\<close> multiplies every row by the weight vector
  and sums it; pandas raises ValueError when the vector does not have one entry per
  column.
\<close>

definition portfolio_return :: "real list \<Rightarrow> real list \<Rightarrow> error + real" where
  "portfolio_return weights mean_returns =
     ebind (np_broadcast (*) weights mean_returns) (\<lambda>p. Inr (sum_list p))"

definition portfolio_volatility :: "real list \<Rightarrow> real list list \<Rightarrow> error + npfloat" where
  "portfolio_volatility weights cov_matrix =
     ebind (np_matvec cov_matrix weights) (\<lambda>cw.
     ebind (np_dot weights cw) (\<lambda>q. Inr (np_sqrt q)))"

definition sharpe_ratio :: "real list \<Rightarrow> real list \<Rightarrow> real list list \<Rightarrow> real \<Rightarrow> error + npfloat" where
  "sharpe_ratio weights mean_returns cov_matrix risk_free_rate =
     ebind (portfolio_return weights mean_returns) (\<lambda>portfolio_ret.
     ebind (portfolio_volatility weights cov_matrix) (\<lambda>portfolio_vol.
     Inr (np_div (Fin (portfolio_ret - risk_free_rate)) portfolio_vol)))"

definition calculate_portfolio_returns :: "real list \<Rightarrow> real list list \<Rightarrow> error + real list" where
  "calculate_portfolio_returns weights returns =
     (if list_all (\<lambda>row. length row = length weights) returns
      then Inr (map (\<lambda>row. sum_list (map2 (*) row weights)) returns)
      else Inl (ValueError ''Unable to coerce to Series''))"

definition sortino_ratio :: "real list \<Rightarrow> real list \<Rightarrow> real list list \<Rightarrow> real \<Rightarrow> error + npfloat" where
  "sortino_ratio weights mean_returns returns risk_free_rate =
     ebind (portfolio_return weights mean_returns) (\<lambda>portfolio_ret.
     ebind (calculate_portfolio_returns weights returns) (\<lambda>portfolio_returns.
       let downside_returns = filter (\<lambda>r. r < 0) portfolio_returns;
           downside_std = np_mul (pd_std downside_returns) (np_sqrt 252)
       in if np_eq downside_std (Fin 0) then Inr PInf
          else Inr (np_div (Fin (portfolio_ret - risk_free_rate)) downside_std)))"

definition value_at_risk :: "real list \<Rightarrow> real list list \<Rightarrow> real \<Rightarrow> error + npfloat" where
  "value_at_risk weights returns confidence_level =
     ebind (calculate_portfolio_returns weights returns) (\<lambda>portfolio_returns.
     np_percentile portfolio_returns ((1 - confidence_level) * 100))"


section \<open>Optimizer (src/optimizer.py)\<close>

record optimizer =
  opt_mean_returns :: "real list"
  opt_cov_matrix :: "real list list"
  opt_risk_free_rate :: real
  opt_n_assets :: nat

text \<open>
  The fields of a class keep their source names behind a prefix (\<open>opt_\<close> here,
  \<open>mc_\<close> for the simulator, \<open>rb_\<close> for the rebalancer), the private methods
  \<open>_get_constraints\<close> and \<open>_get_bounds\<close> lose their leading underscore. The
  constructor \<open>PortfolioOptimizer.__init__\<close>:
\<close>

definition init_optimizer :: "real list \<Rightarrow> real list list \<Rightarrow> real \<Rightarrow> error + optimizer" where
  "init_optimizer mean_returns cov_matrix risk_free_rate =
     (if length mean_returns = 0
      then Inl (ValueError ''No assets available for optimization. Please check your ticker symbols.'')
      else Inr \<lparr>opt_mean_returns = mean_returns, opt_cov_matrix = cov_matrix,
                opt_risk_free_rate = risk_free_rate, opt_n_assets = length mean_returns\<rparr>)"

text \<open>
  The nonlinear solver \<open>scipy.optimize.minimize(fun, x0, method='SLSQP', bounds,
  constraints)\<close> is an external primitive: it is a parameter of every function that
  calls it. It receives the objective, the starting point, the box bounds and the
  constraints, and returns scipy's \<open>OptimizeResult\<close>, of which the final iterate
  \<open>x\<close> and the convergence flag \<open>success\<close> are kept (or it propagates an exception).
\<close>

record optimize_result =
  res_x :: "real list"
  res_success :: bool

datatype constraint_type = EqC | IneqC

type_synonym objective = "real list \<Rightarrow> error + npfloat"
type_synonym constraint = "constraint_type \<times> objective"
type_synonym solver =
  "objective \<Rightarrow> real list \<Rightarrow> (real \<times> real) list \<Rightarrow> constraint list \<Rightarrow> error + optimize_result"

text \<open>The dictionary of metrics returned next to the weights.\<close>

record metrics =
  m_expected_return :: real
  m_volatility :: npfloat
  m_sharpe_ratio :: npfloat

definition get_constraints :: "optimizer \<Rightarrow> bool \<Rightarrow> constraint list" where
  "get_constraints opt allow_short = [(EqC, \<lambda>x. Inr (Fin (sum_list x - 1)))]"

definition get_bounds :: "optimizer \<Rightarrow> bool \<Rightarrow> real \<Rightarrow> real \<Rightarrow> (real \<times> real) list" where
  "get_bounds opt allow_short min_weight max_weight =
     (if allow_short then replicate (opt_n_assets opt) (- 1, 1)
      else replicate (opt_n_assets opt) (min_weight, max_weight))"

text \<open>
  The initial guess \<open>x0\<close>, written out identically in the four solver-based methods.
  \<open>1.0 / self.n_assets\<close> is a Python float division, which raises for a zero divisor
  (the constructor excludes it).
\<close>

definition initial_guess :: "optimizer \<Rightarrow> real \<Rightarrow> error + real list" where
  "initial_guess opt min_weight =
     (let n = opt_n_assets opt in
      if n = 0 then Inl (ZeroDivisionError ''float division by zero'')
      else if min_weight * real n > 1 then Inr (replicate n (1 / real n))
      else let x0 = replicate n (max min_weight (1 / real n))
           in Inr (map (\<lambda>v. v / sum_list x0) x0))"

text \<open>The metrics dictionary built at the end of each of the five methods.\<close>

definition result_metrics :: "optimizer \<Rightarrow> real list \<Rightarrow> error + metrics" where
  "result_metrics opt weights =
     ebind (portfolio_return weights (opt_mean_returns opt)) (\<lambda>r.
     ebind (portfolio_volatility weights (opt_cov_matrix opt)) (\<lambda>v.
     ebind (sharpe_ratio weights (opt_mean_returns opt) (opt_cov_matrix opt)
              (opt_risk_free_rate opt)) (\<lambda>s.
     Inr \<lparr>m_expected_return = r, m_volatility = v, m_sharpe_ratio = s\<rparr>)))"

definition neg_sharpe :: "optimizer \<Rightarrow> objective" where
  "neg_sharpe opt weights =
     ebind (sharpe_ratio weights (opt_mean_returns opt) (opt_cov_matrix opt)
              (opt_risk_free_rate opt)) (\<lambda>s. Inr (np_neg s))"

definition portfolio_vol :: "optimizer \<Rightarrow> objective" where
  "portfolio_vol opt weights = portfolio_volatility weights (opt_cov_matrix opt)"

definition neg_return :: "optimizer \<Rightarrow> objective" where
  "neg_return opt weights =
     ebind (portfolio_return weights (opt_mean_returns opt)) (\<lambda>r. Inr (Fin (- r)))"

definition risk_parity_objective :: "optimizer \<Rightarrow> objective" where
  "risk_parity_objective opt weights =
     ebind (portfolio_volatility weights (opt_cov_matrix opt)) (\<lambda>p_vol.
     ebind (np_matvec (opt_cov_matrix opt) weights) (\<lambda>marginal_contrib.
     ebind (np_broadcast (*) weights marginal_contrib) (\<lambda>wm.
       let risk_contrib = map (\<lambda>v. np_div (Fin v) p_vol) wm;
           target_risk = np_div p_vol (Fin (real (opt_n_assets opt)))
       in Inr (foldl np_add (Fin 0)
                 (map (\<lambda>c. np_mul (np_sub c target_risk) (np_sub c target_risk))
                    risk_contrib)))))"

definition optimize_max_sharpe ::
  "solver \<Rightarrow> optimizer \<Rightarrow> bool \<Rightarrow> real \<Rightarrow> real \<Rightarrow> error + real list \<times> metrics" where
  "optimize_max_sharpe slv opt allow_short min_weight max_weight =
     ebind (initial_guess opt min_weight) (\<lambda>x0.
     ebind (slv (neg_sharpe opt) x0 (get_bounds opt allow_short min_weight max_weight)
              (get_constraints opt allow_short)) (\<lambda>result.
       let weights = res_x result
       in ebind (result_metrics opt weights) (\<lambda>m. Inr (weights, m))))"

definition optimize_min_volatility ::
  "solver \<Rightarrow> optimizer \<Rightarrow> bool \<Rightarrow> real \<Rightarrow> real \<Rightarrow> error + real list \<times> metrics" where
  "optimize_min_volatility slv opt allow_short min_weight max_weight =
     ebind (initial_guess opt min_weight) (\<lambda>x0.
     ebind (slv (portfolio_vol opt) x0 (get_bounds opt allow_short min_weight max_weight)
              (get_constraints opt allow_short)) (\<lambda>result.
       let weights = res_x result
       in ebind (result_metrics opt weights) (\<lambda>m. Inr (weights, m))))"

text \<open>
  The constraint list of \<open>optimize_max_return\<close>: the sum constraint, followed by the
  volatility cap when a target volatility is given.
\<close>

definition max_return_constraints :: "optimizer \<Rightarrow> real option \<Rightarrow> bool \<Rightarrow> constraint list" where
  "max_return_constraints opt target_volatility allow_short =
     get_constraints opt allow_short @
       (case target_volatility of
          None \<Rightarrow> []
        | Some tv \<Rightarrow>
            [(IneqC, \<lambda>x. ebind (portfolio_volatility x (opt_cov_matrix opt))
                           (\<lambda>v. Inr (np_sub (Fin tv) v)))])"

definition optimize_max_return ::
  "solver \<Rightarrow> optimizer \<Rightarrow> real option \<Rightarrow> bool \<Rightarrow> real \<Rightarrow> real \<Rightarrow> error + real list \<times> metrics" where
  "optimize_max_return slv opt target_volatility allow_short min_weight max_weight =
     ebind (initial_guess opt min_weight) (\<lambda>x0.
       let constraints = max_return_constraints opt target_volatility allow_short
       in ebind (slv (neg_return opt) x0 (get_bounds opt allow_short min_weight max_weight)
                   constraints) (\<lambda>result.
            let weights = res_x result
            in ebind (result_metrics opt weights) (\<lambda>m. Inr (weights, m))))"

definition optimize_risk_parity ::
  "solver \<Rightarrow> optimizer \<Rightarrow> real \<Rightarrow> real \<Rightarrow> error + real list \<times> metrics" where
  "optimize_risk_parity slv opt min_weight max_weight =
     ebind (initial_guess opt min_weight) (\<lambda>x0.
     ebind (slv (risk_parity_objective opt) x0 (get_bounds opt False min_weight max_weight)
              (get_constraints opt False)) (\<lambda>result.
       let weights = res_x result
       in ebind (result_metrics opt weights) (\<lambda>m. Inr (weights, m))))"

definition optimize_equal_weight :: "optimizer \<Rightarrow> error + real list \<times> metrics" where
  "optimize_equal_weight opt =
     (let n = opt_n_assets opt in
      if n = 0 then Inl (ZeroDivisionError ''float division by zero'')
      else let weights = replicate n (1 / real n)
           in ebind (result_metrics opt weights) (\<lambda>m. Inr (weights, m)))"

text \<open>
  A stand-in for the solver in concrete runs: it stops at its starting point and reports
  the given convergence flag.
\<close>

definition stub_solver :: "bool \<Rightarrow> solver" where
  "stub_solver flag f x0 bounds constraints = Inr \<lparr>res_x = x0, res_success = flag\<rparr>"

text \<open>
  A solver whose results have their convergence flag overwritten, the iterate unchanged.
\<close>

definition with_flag :: "bool \<Rightarrow> solver \<Rightarrow> solver" where
  "with_flag flag slv f x0 bounds constraints =
     ebind (slv f x0 bounds constraints) (\<lambda>r. Inr (r\<lparr>res_success := flag\<rparr>))"

text \<open>
  An objective name is a Python string, here the list of the bytes of its UTF-8
  encoding, so that the five recognised names are the literals of the source.
  \<open>str.lower()\<close> lower-cases by the tables of Unicode (the Kelvin sign becomes \<open>k\<close>,
  for one); it is a primitive of the language and a parameter \<open>lower\<close> of
  \<open>optimize\<close>. On a string of ASCII characters it is the function \<open>ascii_lower\<close>:
  the letters \<open>A\<close> to \<open>Z\<close> become \<open>a\<close> to \<open>z\<close> and every other character stays.
\<close>

definition lower_char :: "char \<Rightarrow> char" where
  "lower_char c =
     (let k = (of_char c :: nat) in if 65 \<le> k \<and> k \<le> 90 then char_of (k + 32) else c)"

definition ascii_lower :: "string \<Rightarrow> string" where
  "ascii_lower s = map lower_char s"

text \<open>
  The keyword arguments that \<open>optimize\<close> forwards with \<open>**kwargs\<close>: each of the four
  keyword names that some method accepts is either absent or bound to a value (other
  keyword names are not represented). A method called with a keyword it does not declare
  raises TypeError; \<open>optimize_equal_weight\<close> is called without the keywords.
\<close>

record kwargs =
  kw_allow_short :: "bool option"
  kw_min_weight :: "real option"
  kw_max_weight :: "real option"
  kw_target_volatility :: "real option option"

definition no_kwargs :: kwargs where
  "no_kwargs = \<lparr>kw_allow_short = None, kw_min_weight = None, kw_max_weight = None,
                 kw_target_volatility = None\<rparr>"

fun is_given :: "'a option \<Rightarrow> bool" where
  "is_given None = False"
| "is_given (Some v) = True"

definition or_default :: "'a \<Rightarrow> 'a option \<Rightarrow> 'a" where
  "or_default d v = (case v of None \<Rightarrow> d | Some a \<Rightarrow> a)"

definition optimize ::
  "(string \<Rightarrow> string) \<Rightarrow> solver \<Rightarrow> optimizer \<Rightarrow> string \<Rightarrow> kwargs
     \<Rightarrow> error + real list \<times> metrics" where
  "optimize lower slv opt objective kw =
     (let objective = lower objective in
      if objective = ''max_sharpe'' then
        (if is_given (kw_target_volatility kw)
         then Inl (TypeError ''optimize_max_sharpe() got an unexpected keyword argument'')
         else optimize_max_sharpe slv opt (or_default False (kw_allow_short kw))
                (or_default 0 (kw_min_weight kw)) (or_default 1 (kw_max_weight kw)))
      else if objective = ''min_volatility'' then
        (if is_given (kw_target_volatility kw)
         then Inl (TypeError ''optimize_min_volatility() got an unexpected keyword argument'')
         else optimize_min_volatility slv opt (or_default False (kw_allow_short kw))
                (or_default 0 (kw_min_weight kw)) (or_default 1 (kw_max_weight kw)))
      else if objective = ''max_return'' then
        optimize_max_return slv opt (or_default None (kw_target_volatility kw))
          (or_default False (kw_allow_short kw))
          (or_default 0 (kw_min_weight kw)) (or_default 1 (kw_max_weight kw))
      else if objective = ''risk_parity'' then
        (if is_given (kw_target_volatility kw) \<or> is_given (kw_allow_short kw)
         then Inl (TypeError ''optimize_risk_parity() got an unexpected keyword argument'')
         else optimize_risk_parity slv opt
                (or_default 0 (kw_min_weight kw)) (or_default 1 (kw_max_weight kw)))
      else if objective = ''equal_weight'' then optimize_equal_weight opt
      else Inl (ValueError (''Unknown objective: '' @ objective)))"

section \<open>Monte Carlo simulator (src/monte_carlo.py)\<close>

record simulator =
  mc_mean_returns :: "real list"
  mc_cov_matrix :: "real list list"
  mc_n_assets :: nat

definition init_simulator :: "real list \<Rightarrow> real list list \<Rightarrow> simulator" where
  "init_simulator mean_returns cov_matrix =
     \<lparr>mc_mean_returns = mean_returns, mc_cov_matrix = cov_matrix,
      mc_n_assets = length mean_returns\<rparr>"

text \<open>
  The global generator of \<open>np.random\<close> is a stream \<open>z\<close> of standard normal variates
  and the number of variates drawn so far; \<open>np.random.normal(loc, scale)\<close> takes the
  next variate and returns \<open>loc + scale * z\<close>. Its scale is a square root here, so the
  ValueError for a negative scale cannot occur.
\<close>

definition random_normal :: "(nat \<Rightarrow> real) \<Rightarrow> nat \<Rightarrow> real \<Rightarrow> npfloat \<Rightarrow> npfloat \<times> nat" where
  "random_normal z k loc scale = (np_add (Fin loc) (np_mul scale (Fin (z k))), Suc k)"

text \<open>
  One pass of the inner loop: the state is the generator position, the running
  \<open>value\<close> and the row \<open>paths[sim, :]\<close> that the pass writes at index \<open>year\<close>.
\<close>

definition year_step ::
  "(nat \<Rightarrow> real) \<Rightarrow> real \<Rightarrow> npfloat \<Rightarrow> real \<Rightarrow> nat \<times> npfloat \<times> npfloat list \<Rightarrow> nat
     \<Rightarrow> nat \<times> npfloat \<times> npfloat list" where
  "year_step z port_return port_std annual_contribution st year =
     (case st of (k, value, row) \<Rightarrow>
        (case random_normal z k port_return port_std of (annual_return, k') \<Rightarrow>
           let value' = np_add (np_mul value (np_add (Fin 1) annual_return))
                          (Fin annual_contribution)
           in (k', value', row[year := value'])))"

text \<open>
  One pass of the outer loop: the state is the generator position and the two arrays
  \<open>final_values\<close> and \<open>paths\<close>.
\<close>

definition sim_step ::
  "(nat \<Rightarrow> real) \<Rightarrow> real \<Rightarrow> npfloat \<Rightarrow> real \<Rightarrow> real \<Rightarrow> nat
     \<Rightarrow> nat \<times> npfloat list \<times> npfloat list list \<Rightarrow> nat
     \<Rightarrow> nat \<times> npfloat list \<times> npfloat list list" where
  "sim_step z port_return port_std annual_contribution initial_investment years st sim =
     (case st of (k, final_values, paths) \<Rightarrow>
        (case foldl (year_step z port_return port_std annual_contribution)
                (k, Fin initial_investment, paths ! sim) [1..<Suc years]
         of (k', value, row) \<Rightarrow> (k', final_values[sim := value], paths[sim := row])))"

text \<open>The returned dictionary; \<open>sim_percentiles\<close> is its inner dictionary, in key order.\<close>

record simulation_result =
  sim_final_values :: "npfloat list"
  sim_paths :: "npfloat list list"
  sim_percentiles :: "(string \<times> npfloat) list"
  sim_expected_value :: npfloat
  sim_prob_loss :: npfloat
  sim_var_95 :: npfloat
  sim_cvar_95 :: npfloat
  sim_portfolio_return :: real
  sim_portfolio_std :: npfloat

text \<open>
  \<open>simulate_portfolio\<close> (\<open>port_return\<close>, \<open>port_variance\<close> and \<open>port_std\<close> are its
  locals \<open>portfolio_return\<close>, \<open>portfolio_variance\<close> and \<open>portfolio_std\<close>). The horizon
  and the number of simulations are Python integers: \<open>np.zeros\<close> raises ValueError for
  a negative dimension, and the assignment to column \<open>0\<close> raises IndexError when the
  path matrix has no column. After the loops the statistics are computed from
  \<open>final_values\<close>; with no simulation at all the first percentile raises IndexError.
\<close>

definition simulate_portfolio ::
  "(nat \<Rightarrow> real) \<Rightarrow> simulator \<Rightarrow> real list \<Rightarrow> real \<Rightarrow> int \<Rightarrow> int \<Rightarrow> real
     \<Rightarrow> error + simulation_result" where
  "simulate_portfolio z sim weights initial_investment time_horizon_years n_simulations
       annual_contribution =
     ebind (np_dot weights (mc_mean_returns sim)) (\<lambda>port_return.
     ebind (np_matvec (mc_cov_matrix sim) weights) (\<lambda>cw.
     ebind (np_dot weights cw) (\<lambda>port_variance.
       let port_std = np_sqrt port_variance in
       if n_simulations < 0 \<or> time_horizon_years + 1 < 0
       then Inl (ValueError ''negative dimensions are not allowed'')
       else if time_horizon_years + 1 = 0
       then Inl (IndexError ''index 0 is out of bounds for axis 1 with size 0'')
       else
         let n = nat n_simulations;
             years = nat time_horizon_years;
             final_values0 = replicate n (Fin 0);
             paths0 = replicate n (Fin initial_investment # replicate years (Fin 0))
         in (case foldl (sim_step z port_return port_std annual_contribution
                           initial_investment years)
                    (0, final_values0, paths0) [0..<n]
             of (k, final_values, paths) \<Rightarrow>
               ebind (np_percentile_ext final_values 10) (\<lambda>p10.
               ebind (np_percentile_ext final_values 25) (\<lambda>p25.
               ebind (np_percentile_ext final_values 50) (\<lambda>p50.
               ebind (np_percentile_ext final_values 75) (\<lambda>p75.
               ebind (np_percentile_ext final_values 90) (\<lambda>p90.
                 let percentiles = [(''10th'', p10), (''25th'', p25), (''50th'', p50),
                                    (''75th'', p75), (''90th'', p90)];
                     prob_loss =
                       np_div (Fin (real (length (filter
                                 (\<lambda>v. np_lt v (Fin initial_investment)) final_values))))
                         (Fin (real_of_int n_simulations));
                     expected_value = np_mean final_values
                 in ebind (np_percentile_ext final_values 5) (\<lambda>var_95.
                      let cvar_95 = np_mean (filter (\<lambda>v. np_le v var_95) final_values)
                      in Inr \<lparr>sim_final_values = final_values, sim_paths = paths,
                              sim_percentiles = percentiles,
                              sim_expected_value = expected_value,
                              sim_prob_loss = prob_loss,
                              sim_var_95 = var_95, sim_cvar_95 = cvar_95,
                              sim_portfolio_return = port_return,
                              sim_portfolio_std = port_std\<rparr>))))))))))"

section \<open>Rebalancer (src/rebalancer.py)\<close>





section \<open>Basic facts\<close>

lemma ebind_Inr [simp]: "ebind (Inr v) f = f v"
  by (simp add: ebind_def)

lemma ebind_Inl [simp]: "ebind (Inl e) f = Inl e"
  by (simp add: ebind_def)

lemma calculate_portfolio_returns_length:
  "calculate_portfolio_returns w rs = Inr P \<Longrightarrow> length P = length rs"
  by (auto simp: calculate_portfolio_returns_def split: if_splits)

lemma calculate_portfolio_returns_ok:
  "list_all (\<lambda>row. length row = length w) rs \<Longrightarrow> \<exists>P. calculate_portfolio_returns w rs = Inr P"
  by (simp add: calculate_portfolio_returns_def)

lemma lerp_upper: "a \<le> b \<Longrightarrow> t \<le> 1 \<Longrightarrow> a + (b - a) * t \<le> (b::real)"
proof -
  assume h: "a \<le> b" "t \<le> 1"
  then have "(b - a) * t \<le> (b - a) * 1"
    by (intro mult_left_mono) auto
  then show ?thesis by simp
qed

section \<open>Sharpe ratio at zero volatility\<close>

text \<open>
  Claim C1. The specification asks that \<open>sharpe_ratio\<close> handles a portfolio volatility of
  exactly zero explicitly and returns positive infinity, never nan. The function divides
  without a guard (its siblings \<open>sortino_ratio\<close>, \<open>calmar_ratio\<close> and
  \<open>information_ratio\<close> test their denominator first): for a single riskless asset whose
  return equals the risk-free rate the result is nan, and for one whose return is below
  the risk-free rate it is negative infinity.
\<close>

theorem sharpe_ratio_zero_volatility_unguarded:
  "portfolio_volatility [1] [[0]] = Inr (Fin 0) \<and>
   sharpe_ratio [1] [2 / 100] [[0]] (2 / 100) = Inr NaN \<and>
   sharpe_ratio [1] [1 / 100] [[0]] (2 / 100) = Inr NInf"
  by (simp add: sharpe_ratio_def portfolio_return_def portfolio_volatility_def
      np_broadcast_def np_matvec_def np_dot_def np_sqrt_def inf_of_sign_def)

section \<open>Value at risk\<close>

lemma np_percentile_5_of_100:
  assumes "length a = 100"
  shows "np_percentile a 5 = Inr (Fin (sort a ! 4 + (sort a ! 5 - sort a ! 4) * (95 / 100)))"
proof -
  have ne: "a \<noteq> []" using assms by auto
  have fl: "\<lfloor>(495::real) / 100\<rfloor> = 4" by linarith
  show ?thesis
    using ne by (simp add: np_percentile_def assms Let_def fl)
qed

lemma sort_two_blocks:
  "a \<le> b \<Longrightarrow> sort (replicate m a @ replicate n b) = replicate m a @ replicate n (b::real)"
  by (rule sorted_sort_id) (auto simp: sorted_append)

text \<open>
  Claim C3, as the specification states it: on 100 periods the 95% value at risk is
  exactly the 5th-smallest weighted return, with no interpolation. It fails for one
  asset held at weight 1 with five returns of \<open>-0.10\<close> and ninety-five of \<open>0.10\<close>: the
  5th-smallest return is \<open>-0.10\<close>, the function returns \<open>0.09\<close>.
\<close>

theorem value_at_risk_order_statistic_counterexample:
  "length (replicate 5 [- 1 / 10] @ replicate 95 [1 / 10 :: real]) = 100 \<and>
   calculate_portfolio_returns [1] (replicate 5 [- 1 / 10] @ replicate 95 [1 / 10])
      = Inr (replicate 5 (- 1 / 10) @ replicate 95 (1 / 10)) \<and>
   sort (replicate 5 (- 1 / 10) @ replicate 95 (1 / 10 :: real)) ! 4 = - 1 / 10 \<and>
   value_at_risk [1] (replicate 5 [- 1 / 10] @ replicate 95 [1 / 10]) (95 / 100)
      = Inr (Fin (9 / 100)) \<and>
   value_at_risk [1] (replicate 5 [- 1 / 10] @ replicate 95 [1 / 10]) (95 / 100)
      \<noteq> Inr (Fin (sort (replicate 5 (- 1 / 10) @ replicate 95 (1 / 10 :: real)) ! 4))"
proof -
  let ?R = "replicate 5 [- 1 / 10] @ replicate 95 [1 / 10 :: real]"
  let ?P = "replicate 5 (- 1 / 10) @ replicate 95 (1 / 10 :: real)"
  have P: "calculate_portfolio_returns [1] ?R = Inr ?P"
    by (simp add: calculate_portfolio_returns_def list_all_iff)
  have s: "sort ?P = ?P"
    by (rule sort_two_blocks) simp
  have q: "(1 - (95::real) / 100) * 100 = 5" by simp
  have l: "length ?P = 100" by simp
  have s4: "?P ! 4 = - 1 / 10" and s5: "?P ! 5 = 1 / 10"
    by (simp_all add: nth_append)
  have "np_percentile ?P 5 = Inr (Fin (9 / 100))"
    unfolding np_percentile_5_of_100 [OF l] s s4 s5 by simp
  then have v: "value_at_risk [1] ?R (95 / 100) = Inr (Fin (9 / 100))"
    unfolding value_at_risk_def P q by simp
  have "length ?R = 100" by simp
  then show ?thesis using P v s s4 by simp
qed

text \<open>
  Claim C3, amended: for every weight vector and every return series of exactly 100
  periods with one column per weight, the 95% value at risk is the percentile of the
  realised weighted returns by historical simulation with linear interpolation. With
  \<open>s\<close> the weighted returns in ascending order it is
  \<open>s[4] + 0.95 * (s[5] - s[4])\<close>, a value between the 5th-smallest and the
  6th-smallest return, and it is the 5th-smallest exactly when those two are equal.
\<close>

theorem value_at_risk_95_of_100:
  assumes len: "length returns = 100"
    and shape: "list_all (\<lambda>row. length row = length weights) returns"
  shows "\<exists>P s. calculate_portfolio_returns weights returns = Inr P \<and> s = sort P \<and>
           value_at_risk weights returns (95 / 100)
             = Inr (Fin (s ! 4 + (s ! 5 - s ! 4) * (95 / 100))) \<and>
           s ! 4 \<le> s ! 4 + (s ! 5 - s ! 4) * (95 / 100) \<and>
           s ! 4 + (s ! 5 - s ! 4) * (95 / 100) \<le> s ! 5 \<and>
           (s ! 4 + (s ! 5 - s ! 4) * (95 / 100) = s ! 4 \<longleftrightarrow> s ! 5 = s ! 4)"
proof -
  obtain P where P: "calculate_portfolio_returns weights returns = Inr P"
    using calculate_portfolio_returns_ok [OF shape] by blast
  have lP: "length P = 100"
    using calculate_portfolio_returns_length [OF P] len by simp
  have q: "(1 - (95::real) / 100) * 100 = 5" by simp
  have v: "value_at_risk weights returns (95 / 100)
             = Inr (Fin (sort P ! 4 + (sort P ! 5 - sort P ! 4) * (95 / 100)))"
    by (simp add: value_at_risk_def P q np_percentile_5_of_100 [OF lP])
  have le: "sort P ! 4 \<le> sort P ! 5"
    using lP by (simp add: sorted_nth_mono)
  from le have a: "sort P ! 4 \<le> sort P ! 4 + (sort P ! 5 - sort P ! 4) * (95 / 100)"
    by simp
  from le have b: "sort P ! 4 + (sort P ! 5 - sort P ! 4) * (95 / 100) \<le> sort P ! 5"
    by (rule lerp_upper) simp
  have c: "(sort P ! 4 + (sort P ! 5 - sort P ! 4) * (95 / 100) = sort P ! 4)
             = (sort P ! 5 = sort P ! 4)"
    by simp
  show ?thesis using P v a b c by blast
qed

theorem value_at_risk_95_of_100_witness:
  "length (replicate 100 [3 / 100 :: real]) = 100 \<and>
   list_all (\<lambda>row. length row = length [1 :: real]) (replicate 100 [3 / 100 :: real]) \<and>
   (\<exists>v. value_at_risk [1] (replicate 100 [3 / 100]) (95 / 100) = Inr (Fin v))"
proof -
  have h1: "length (replicate 100 [3 / 100 :: real]) = 100" by simp
  have h2: "list_all (\<lambda>row. length row = length [1 :: real]) (replicate 100 [3 / 100 :: real])"
    by (simp add: list_all_iff)
  show ?thesis
    using value_at_risk_95_of_100 [OF h1 h2] h1 h2 by blast
qed

section \<open>Sortino ratio without negative returns\<close>

text \<open>
  When the weighted return series has no negative entry, the downside subset is empty
  and its sample standard deviation is nan; nan is not equal to zero, so the guard
  \<open>downside_std == 0\<close> does not fire and the quotient is nan.
\<close>

lemma sortino_ratio_no_negative_return:
  assumes "calculate_portfolio_returns weights returns = Inr P"
    and "portfolio_return weights mean_returns = Inr r"
    and "list_all (\<lambda>v. 0 \<le> v) P"
  shows "sortino_ratio weights mean_returns returns rf = Inr NaN"
proof -
  have "filter (\<lambda>v. v < 0) P = []"
    using assms(3) by (auto simp: filter_empty_conv list_all_iff)
  then show ?thesis
    using assms(1,2) by (simp add: sortino_ratio_def pd_std_def)
qed

text \<open>
  Claim C4. The specification asks for positive infinity, never nan, when the weighted
  return series has no negative value. For one asset at weight 1 with the two returns
  \<open>0.01\<close> and \<open>0.02\<close> (mean return \<open>0.10\<close>, risk-free rate \<open>0.02\<close>) the function
  returns nan.
\<close>

theorem sortino_ratio_no_downside_is_nan:
  "calculate_portfolio_returns [1] [[1 / 100], [2 / 100]] = Inr [1 / 100, 2 / 100] \<and>
   sortino_ratio [1] [1 / 10] [[1 / 100], [2 / 100]] (2 / 100) = Inr NaN"
  by (simp add: sortino_ratio_def portfolio_return_def calculate_portfolio_returns_def
      np_broadcast_def pd_std_def)

section \<open>Conditional value at risk\<close>














section \<open>Optimizer results\<close>

lemma ebind_eq_Inr: "ebind m f = Inr r \<longleftrightarrow> (\<exists>v. m = Inr v \<and> f v = Inr r)"
  by (cases m) simp_all

lemma init_optimizer_Inr:
  "init_optimizer mu cov rf = Inr opt \<Longrightarrow>
     mu \<noteq> [] \<and> opt_mean_returns opt = mu \<and> opt_cov_matrix opt = cov \<and>
     opt_risk_free_rate opt = rf \<and> opt_n_assets opt = length mu"
  by (auto simp: init_optimizer_def split: if_splits)

lemma initial_guess_ok:
  "opt_n_assets opt \<noteq> 0 \<Longrightarrow> \<exists>x0. initial_guess opt lo = Inr x0 \<and> length x0 = opt_n_assets opt"
  by (simp add: initial_guess_def Let_def)

lemma portfolio_return_ok:
  "length w = length mu \<Longrightarrow> portfolio_return w mu = Inr (sum_list (map2 (*) w mu))"
  by (simp add: portfolio_return_def np_broadcast_def)

lemma portfolio_volatility_ok:
  assumes "length cov = length w" and "list_all (\<lambda>row. length row = length w) cov"
  shows "portfolio_volatility w cov
           = Inr (np_sqrt (sum_list (map2 (*) w (map (\<lambda>row. sum_list (map2 (*) row w)) cov))))"
  using assms by (simp add: portfolio_volatility_def np_matvec_def np_dot_def)

lemma result_metrics_ok:
  assumes "length w = length (opt_mean_returns opt)"
    and "length (opt_cov_matrix opt) = length (opt_mean_returns opt)"
    and "list_all (\<lambda>row. length row = length (opt_mean_returns opt)) (opt_cov_matrix opt)"
  shows "\<exists>m. result_metrics opt w = Inr m \<and>
           m_expected_return m = sum_list (map2 (*) w (opt_mean_returns opt)) \<and>
           portfolio_volatility w (opt_cov_matrix opt) = Inr (m_volatility m) \<and>
           m_sharpe_ratio m
             = np_div (Fin (m_expected_return m - opt_risk_free_rate opt)) (m_volatility m)"
proof -
  have r: "portfolio_return w (opt_mean_returns opt)
             = Inr (sum_list (map2 (*) w (opt_mean_returns opt)))"
    using assms(1) by (rule portfolio_return_ok)
  have v: "portfolio_volatility w (opt_cov_matrix opt)
             = Inr (np_sqrt (sum_list (map2 (*) w
                 (map (\<lambda>row. sum_list (map2 (*) row w)) (opt_cov_matrix opt)))))"
    using assms by (intro portfolio_volatility_ok) simp_all
  show ?thesis
    by (simp add: result_metrics_def sharpe_ratio_def r v)
qed

text \<open>A two-asset example: returns 10% and 20%, both volatilities 20%, fully correlated.\<close>

lemma sqrt_1_25: "sqrt (1 / 25) = 1 / 5"
  by (rule real_sqrt_unique) (simp_all add: power2_eq_square)

lemma example_optimizer:
  "init_optimizer [1 / 10, 1 / 5] [[1 / 25, 1 / 25], [1 / 25, 1 / 25]] (1 / 50)
     = Inr \<lparr>opt_mean_returns = [1 / 10, 1 / 5],
            opt_cov_matrix = [[1 / 25, 1 / 25], [1 / 25, 1 / 25]],
            opt_risk_free_rate = 1 / 50, opt_n_assets = 2\<rparr>"
  by (simp add: init_optimizer_def)

lemma example_metrics:
  "result_metrics \<lparr>opt_mean_returns = [1 / 10, 1 / 5],
            opt_cov_matrix = [[1 / 25, 1 / 25], [1 / 25, 1 / 25]],
            opt_risk_free_rate = 1 / 50, opt_n_assets = 2\<rparr> [1 / 2, 1 / 2]
     = Inr \<lparr>m_expected_return = 3 / 20, m_volatility = Fin (1 / 5),
            m_sharpe_ratio = Fin (13 / 20)\<rparr>"
  by (simp add: result_metrics_def sharpe_ratio_def portfolio_return_def
      portfolio_volatility_def np_broadcast_def np_matvec_def np_dot_def np_sqrt_def sqrt_1_25)

lemma example_guess:
  "initial_guess \<lparr>opt_mean_returns = [1 / 10, 1 / 5],
            opt_cov_matrix = [[1 / 25, 1 / 25], [1 / 25, 1 / 25]],
            opt_risk_free_rate = 1 / 50, opt_n_assets = 2\<rparr> 0 = Inr [1 / 2, 1 / 2]"
  by (simp add: initial_guess_def Let_def numeral_2_eq_2)

lemma stub_runs:
  "optimize_max_sharpe (stub_solver b)
      \<lparr>opt_mean_returns = [1 / 10, 1 / 5],
       opt_cov_matrix = [[1 / 25, 1 / 25], [1 / 25, 1 / 25]],
       opt_risk_free_rate = 1 / 50, opt_n_assets = 2\<rparr> False 0 1
     = Inr ([1 / 2, 1 / 2],
            \<lparr>m_expected_return = 3 / 20, m_volatility = Fin (1 / 5),
             m_sharpe_ratio = Fin (13 / 20)\<rparr>)"
  "optimize_min_volatility (stub_solver b)
      \<lparr>opt_mean_returns = [1 / 10, 1 / 5],
       opt_cov_matrix = [[1 / 25, 1 / 25], [1 / 25, 1 / 25]],
       opt_risk_free_rate = 1 / 50, opt_n_assets = 2\<rparr> False 0 1
     = Inr ([1 / 2, 1 / 2],
            \<lparr>m_expected_return = 3 / 20, m_volatility = Fin (1 / 5),
             m_sharpe_ratio = Fin (13 / 20)\<rparr>)"
  "optimize_max_return (stub_solver b)
      \<lparr>opt_mean_returns = [1 / 10, 1 / 5],
       opt_cov_matrix = [[1 / 25, 1 / 25], [1 / 25, 1 / 25]],
       opt_risk_free_rate = 1 / 50, opt_n_assets = 2\<rparr> None False 0 1
     = Inr ([1 / 2, 1 / 2],
            \<lparr>m_expected_return = 3 / 20, m_volatility = Fin (1 / 5),
             m_sharpe_ratio = Fin (13 / 20)\<rparr>)"
  "optimize_risk_parity (stub_solver b)
      \<lparr>opt_mean_returns = [1 / 10, 1 / 5],
       opt_cov_matrix = [[1 / 25, 1 / 25], [1 / 25, 1 / 25]],
       opt_risk_free_rate = 1 / 50, opt_n_assets = 2\<rparr> 0 1
     = Inr ([1 / 2, 1 / 2],
            \<lparr>m_expected_return = 3 / 20, m_volatility = Fin (1 / 5),
             m_sharpe_ratio = Fin (13 / 20)\<rparr>)"
  "optimize_equal_weight
      \<lparr>opt_mean_returns = [1 / 10, 1 / 5],
       opt_cov_matrix = [[1 / 25, 1 / 25], [1 / 25, 1 / 25]],
       opt_risk_free_rate = 1 / 50, opt_n_assets = 2\<rparr>
     = Inr ([1 / 2, 1 / 2],
            \<lparr>m_expected_return = 3 / 20, m_volatility = Fin (1 / 5),
             m_sharpe_ratio = Fin (13 / 20)\<rparr>)"
proof -
  have rep: "replicate 2 (1 / real 2) = [1 / 2, 1 / 2 :: real]"
    by (simp add: numeral_2_eq_2)
  show "optimize_equal_weight
      \<lparr>opt_mean_returns = [1 / 10, 1 / 5],
       opt_cov_matrix = [[1 / 25, 1 / 25], [1 / 25, 1 / 25]],
       opt_risk_free_rate = 1 / 50, opt_n_assets = 2\<rparr>
     = Inr ([1 / 2, 1 / 2],
            \<lparr>m_expected_return = 3 / 20, m_volatility = Fin (1 / 5),
             m_sharpe_ratio = Fin (13 / 20)\<rparr>)"
    unfolding optimize_equal_weight_def Let_def optimizer.simps rep example_metrics
    by simp
qed (simp_all add: optimize_max_sharpe_def optimize_min_volatility_def
      optimize_max_return_def optimize_risk_parity_def example_guess stub_solver_def
      example_metrics)

text \<open>
  Claim C2, as the specification states it: whatever the solver reports, the optimizer
  returns the iterate, and the result carries a convergence flag that lets the caller
  tell a converged optimum from a degraded one. The second half fails: for the same
  two-asset problem a solver that reports success and one that reports failure at the
  same iterate give identical results, a pair of the weights and the three metrics.
\<close>

theorem optimize_result_has_no_convergence_flag:
  "stub_solver True
      (neg_sharpe
         \<lparr>opt_mean_returns = [1 / 10, 1 / 5],
       opt_cov_matrix = [[1 / 25, 1 / 25], [1 / 25, 1 / 25]],
       opt_risk_free_rate = 1 / 50, opt_n_assets = 2\<rparr>)
      [1 / 2, 1 / 2]
      (get_bounds
         \<lparr>opt_mean_returns = [1 / 10, 1 / 5],
       opt_cov_matrix = [[1 / 25, 1 / 25], [1 / 25, 1 / 25]],
       opt_risk_free_rate = 1 / 50, opt_n_assets = 2\<rparr> False 0 1)
      (get_constraints
         \<lparr>opt_mean_returns = [1 / 10, 1 / 5],
       opt_cov_matrix = [[1 / 25, 1 / 25], [1 / 25, 1 / 25]],
       opt_risk_free_rate = 1 / 50, opt_n_assets = 2\<rparr> False)
     = Inr \<lparr>res_x = [1 / 2, 1 / 2], res_success = True\<rparr> \<and>
   stub_solver False
      (neg_sharpe
         \<lparr>opt_mean_returns = [1 / 10, 1 / 5],
       opt_cov_matrix = [[1 / 25, 1 / 25], [1 / 25, 1 / 25]],
       opt_risk_free_rate = 1 / 50, opt_n_assets = 2\<rparr>)
      [1 / 2, 1 / 2]
      (get_bounds
         \<lparr>opt_mean_returns = [1 / 10, 1 / 5],
       opt_cov_matrix = [[1 / 25, 1 / 25], [1 / 25, 1 / 25]],
       opt_risk_free_rate = 1 / 50, opt_n_assets = 2\<rparr> False 0 1)
      (get_constraints
         \<lparr>opt_mean_returns = [1 / 10, 1 / 5],
       opt_cov_matrix = [[1 / 25, 1 / 25], [1 / 25, 1 / 25]],
       opt_risk_free_rate = 1 / 50, opt_n_assets = 2\<rparr> False)
     = Inr \<lparr>res_x = [1 / 2, 1 / 2], res_success = False\<rparr> \<and>
   optimize_max_sharpe (stub_solver True)
      \<lparr>opt_mean_returns = [1 / 10, 1 / 5],
       opt_cov_matrix = [[1 / 25, 1 / 25], [1 / 25, 1 / 25]],
       opt_risk_free_rate = 1 / 50, opt_n_assets = 2\<rparr> False 0 1
     = Inr ([1 / 2, 1 / 2],
            \<lparr>m_expected_return = 3 / 20, m_volatility = Fin (1 / 5),
             m_sharpe_ratio = Fin (13 / 20)\<rparr>) \<and>
   optimize_max_sharpe (stub_solver False)
      \<lparr>opt_mean_returns = [1 / 10, 1 / 5],
       opt_cov_matrix = [[1 / 25, 1 / 25], [1 / 25, 1 / 25]],
       opt_risk_free_rate = 1 / 50, opt_n_assets = 2\<rparr> False 0 1
     = Inr ([1 / 2, 1 / 2],
            \<lparr>m_expected_return = 3 / 20, m_volatility = Fin (1 / 5),
             m_sharpe_ratio = Fin (13 / 20)\<rparr>)"
  by (simp add: stub_runs) (simp add: stub_solver_def)

text \<open>
  Claim C2, amended: for each of the four solver-based objectives, whenever the solver
  returns a result, converged or not, the optimizer returns its final iterate as the
  weights together with the metrics computed at that iterate (given a covariance matrix
  with one row and one column per asset and an iterate with one weight per asset); the
  returned pair holds no convergence flag, and it is the same whatever flag the solver
  reports.
\<close>

theorem optimize_returns_final_iterate:
  assumes init: "init_optimizer mean_returns cov_matrix rf = Inr opt"
    and cov: "length cov_matrix = length mean_returns"
      "list_all (\<lambda>row. length row = length mean_returns) cov_matrix"
    and len: "length (res_x result) = length mean_returns"
  shows "\<exists>x0 m. initial_guess opt min_weight = Inr x0 \<and>
           result_metrics opt (res_x result) = Inr m \<and>
           (slv (neg_sharpe opt) x0 (get_bounds opt allow_short min_weight max_weight)
                (get_constraints opt allow_short) = Inr result
              \<longrightarrow> optimize_max_sharpe slv opt allow_short min_weight max_weight
                    = Inr (res_x result, m)) \<and>
           (slv (portfolio_vol opt) x0 (get_bounds opt allow_short min_weight max_weight)
                (get_constraints opt allow_short) = Inr result
              \<longrightarrow> optimize_min_volatility slv opt allow_short min_weight max_weight
                    = Inr (res_x result, m)) \<and>
           (slv (neg_return opt) x0 (get_bounds opt allow_short min_weight max_weight)
                (max_return_constraints opt target_volatility allow_short) = Inr result
              \<longrightarrow> optimize_max_return slv opt target_volatility allow_short min_weight max_weight
                    = Inr (res_x result, m)) \<and>
           (slv (risk_parity_objective opt) x0 (get_bounds opt False min_weight max_weight)
                (get_constraints opt False) = Inr result
              \<longrightarrow> optimize_risk_parity slv opt min_weight max_weight
                    = Inr (res_x result, m)) \<and>
           optimize_max_sharpe (with_flag flag slv) opt allow_short min_weight max_weight
             = optimize_max_sharpe slv opt allow_short min_weight max_weight \<and>
           optimize_min_volatility (with_flag flag slv) opt allow_short min_weight max_weight
             = optimize_min_volatility slv opt allow_short min_weight max_weight \<and>
           optimize_max_return (with_flag flag slv) opt target_volatility allow_short
               min_weight max_weight
             = optimize_max_return slv opt target_volatility allow_short min_weight max_weight \<and>
           optimize_risk_parity (with_flag flag slv) opt min_weight max_weight
             = optimize_risk_parity slv opt min_weight max_weight"
proof -
  note o = init_optimizer_Inr [OF init]
  from o have "opt_n_assets opt \<noteq> 0" by simp
  then obtain x0 where x0: "initial_guess opt min_weight = Inr x0"
    using initial_guess_ok by blast
  obtain m where m: "result_metrics opt (res_x result) = Inr m"
    using result_metrics_ok [of "res_x result" opt] o cov len by auto
  have flag: "ebind (with_flag flag slv f x b cs)
                  (\<lambda>result. ebind (result_metrics opt (res_x result))
                     (\<lambda>m. Inr (res_x result, m)))
                = ebind (slv f x b cs)
                    (\<lambda>result. ebind (result_metrics opt (res_x result))
                       (\<lambda>m. Inr (res_x result, m)))" for f x b cs
    by (cases "slv f x b cs") (simp_all add: with_flag_def)
  have a: "optimize_max_sharpe (with_flag flag slv) opt allow_short min_weight max_weight
             = optimize_max_sharpe slv opt allow_short min_weight max_weight"
    by (simp add: optimize_max_sharpe_def Let_def flag)
  have b: "optimize_min_volatility (with_flag flag slv) opt allow_short min_weight max_weight
             = optimize_min_volatility slv opt allow_short min_weight max_weight"
    by (simp add: optimize_min_volatility_def Let_def flag)
  have c: "optimize_max_return (with_flag flag slv) opt target_volatility allow_short
               min_weight max_weight
             = optimize_max_return slv opt target_volatility allow_short min_weight max_weight"
    by (simp add: optimize_max_return_def Let_def flag)
  have d: "optimize_risk_parity (with_flag flag slv) opt min_weight max_weight
             = optimize_risk_parity slv opt min_weight max_weight"
    by (simp add: optimize_risk_parity_def Let_def flag)
  show ?thesis
    using x0 m a b c d
    by (simp add: optimize_max_sharpe_def optimize_min_volatility_def
        optimize_max_return_def optimize_risk_parity_def Let_def)
qed

theorem optimize_returns_final_iterate_witness:
  "init_optimizer [1 / 10, 1 / 5] [[1 / 25, 1 / 25], [1 / 25, 1 / 25]] (1 / 50)
     = Inr \<lparr>opt_mean_returns = [1 / 10, 1 / 5],
       opt_cov_matrix = [[1 / 25, 1 / 25], [1 / 25, 1 / 25]],
       opt_risk_free_rate = 1 / 50, opt_n_assets = 2\<rparr> \<and>
   res_success \<lparr>res_x = [1 / 2, 1 / 2], res_success = False\<rparr> = False \<and>
   optimize_max_sharpe (stub_solver False)
      \<lparr>opt_mean_returns = [1 / 10, 1 / 5],
       opt_cov_matrix = [[1 / 25, 1 / 25], [1 / 25, 1 / 25]],
       opt_risk_free_rate = 1 / 50, opt_n_assets = 2\<rparr> False 0 1
     = Inr ([1 / 2, 1 / 2],
            \<lparr>m_expected_return = 3 / 20, m_volatility = Fin (1 / 5),
             m_sharpe_ratio = Fin (13 / 20)\<rparr>) \<and>
   optimize_min_volatility (stub_solver False)
      \<lparr>opt_mean_returns = [1 / 10, 1 / 5],
       opt_cov_matrix = [[1 / 25, 1 / 25], [1 / 25, 1 / 25]],
       opt_risk_free_rate = 1 / 50, opt_n_assets = 2\<rparr> False 0 1
     = Inr ([1 / 2, 1 / 2],
            \<lparr>m_expected_return = 3 / 20, m_volatility = Fin (1 / 5),
             m_sharpe_ratio = Fin (13 / 20)\<rparr>) \<and>
   optimize_max_return (stub_solver False)
      \<lparr>opt_mean_returns = [1 / 10, 1 / 5],
       opt_cov_matrix = [[1 / 25, 1 / 25], [1 / 25, 1 / 25]],
       opt_risk_free_rate = 1 / 50, opt_n_assets = 2\<rparr> None False 0 1
     = Inr ([1 / 2, 1 / 2],
            \<lparr>m_expected_return = 3 / 20, m_volatility = Fin (1 / 5),
             m_sharpe_ratio = Fin (13 / 20)\<rparr>) \<and>
   optimize_risk_parity (stub_solver False)
      \<lparr>opt_mean_returns = [1 / 10, 1 / 5],
       opt_cov_matrix = [[1 / 25, 1 / 25], [1 / 25, 1 / 25]],
       opt_risk_free_rate = 1 / 50, opt_n_assets = 2\<rparr> 0 1
     = Inr ([1 / 2, 1 / 2],
            \<lparr>m_expected_return = 3 / 20, m_volatility = Fin (1 / 5),
             m_sharpe_ratio = Fin (13 / 20)\<rparr>)"
proof -
  let ?opt = "\<lparr>opt_mean_returns = [1 / 10, 1 / 5],
       opt_cov_matrix = [[1 / 25, 1 / 25], [1 / 25, 1 / 25 :: real]],
       opt_risk_free_rate = 1 / 50, opt_n_assets = 2\<rparr>"
  let ?r = "\<lparr>res_x = [1 / 2, 1 / 2 :: real], res_success = False\<rparr>"
  let ?slv = "stub_solver False"
  have h2: "length [[1 / 25, 1 / 25], [1 / 25, 1 / 25 :: real]]
              = length [1 / 10, 1 / 5 :: real]" by simp
  have h3: "list_all (\<lambda>row. length row = length [1 / 10, 1 / 5 :: real])
              [[1 / 25, 1 / 25], [1 / 25, 1 / 25 :: real]]" by simp
  have h4: "length (res_x ?r) = length [1 / 10, 1 / 5 :: real]" by simp
  obtain x0 m where x0: "initial_guess ?opt 0 = Inr x0"
    and m: "result_metrics ?opt (res_x ?r) = Inr m"
    and ms: "?slv (neg_sharpe ?opt) x0 (get_bounds ?opt False 0 1)
               (get_constraints ?opt False) = Inr ?r
             \<longrightarrow> optimize_max_sharpe ?slv ?opt False 0 1 = Inr (res_x ?r, m)"
    and mv: "?slv (portfolio_vol ?opt) x0 (get_bounds ?opt False 0 1)
               (get_constraints ?opt False) = Inr ?r
             \<longrightarrow> optimize_min_volatility ?slv ?opt False 0 1 = Inr (res_x ?r, m)"
    and mr: "?slv (neg_return ?opt) x0 (get_bounds ?opt False 0 1)
               (max_return_constraints ?opt None False) = Inr ?r
             \<longrightarrow> optimize_max_return ?slv ?opt None False 0 1 = Inr (res_x ?r, m)"
    and rp: "?slv (risk_parity_objective ?opt) x0 (get_bounds ?opt False 0 1)
               (get_constraints ?opt False) = Inr ?r
             \<longrightarrow> optimize_risk_parity ?slv ?opt 0 1 = Inr (res_x ?r, m)"
    using optimize_returns_final_iterate [OF example_optimizer h2 h3 h4,
      where slv = ?slv and min_weight = 0 and max_weight = 1 and allow_short = False
        and target_volatility = None]
    by blast
  have "x0 = [1 / 2, 1 / 2]" using x0 unfolding example_guess by simp
  then have call: "?slv f x0 b cs = Inr ?r" for f b cs
    by (simp add: stub_solver_def)
  have mval: "m = \<lparr>m_expected_return = 3 / 20, m_volatility = Fin (1 / 5),
             m_sharpe_ratio = Fin (13 / 20)\<rparr>"
    using m by (simp add: example_metrics)
  have rx: "res_x ?r = [1 / 2, 1 / 2]" by simp
  from ms call have a: "optimize_max_sharpe ?slv ?opt False 0 1 = Inr (res_x ?r, m)"
    by blast
  from mv call have b: "optimize_min_volatility ?slv ?opt False 0 1 = Inr (res_x ?r, m)"
    by blast
  from mr call have c: "optimize_max_return ?slv ?opt None False 0 1 = Inr (res_x ?r, m)"
    by blast
  from rp call have d: "optimize_risk_parity ?slv ?opt 0 1 = Inr (res_x ?r, m)"
    by blast
  show ?thesis
    using example_optimizer a b c d unfolding rx mval by simp
qed

section \<open>Equal weights\<close>

text \<open>
  Claim C8. For every mean-return vector of \<open>N \<ge> 1\<close> assets (with an \<open>N\<close> by \<open>N\<close>
  covariance matrix) the equal-weight objective returns the vector with every component
  \<open>1 / N\<close>; the dispatcher reaches it for every solver and every keyword arguments
  without calling the solver (for the name \<open>equal_weight\<close> itself and for every string
  that \<open>str.lower()\<close> maps to it), and for \<open>N = 4\<close> the weights are
  \<open>[0.25, 0.25, 0.25, 0.25]\<close>.
\<close>

theorem optimize_equal_weight_closed_form:
  assumes ne: "mean_returns \<noteq> []"
    and cov: "length cov_matrix = length mean_returns"
      "list_all (\<lambda>row. length row = length mean_returns) cov_matrix"
  shows "\<exists>opt m. init_optimizer mean_returns cov_matrix rf = Inr opt \<and>
           optimize_equal_weight opt
             = Inr (replicate (length mean_returns) (1 / real (length mean_returns)), m) \<and>
           (\<forall>slv kw. optimize ascii_lower slv opt ''equal_weight'' kw
                       = optimize_equal_weight opt) \<and>
           (\<forall>lower slv kw objective. lower objective = ''equal_weight'' \<longrightarrow>
              optimize lower slv opt objective kw = optimize_equal_weight opt) \<and>
           (length mean_returns = 4 \<longrightarrow>
              optimize_equal_weight opt = Inr ([1 / 4, 1 / 4, 1 / 4, 1 / 4], m))"
proof -
  let ?n = "length mean_returns"
  let ?opt = "\<lparr>opt_mean_returns = mean_returns, opt_cov_matrix = cov_matrix,
               opt_risk_free_rate = rf, opt_n_assets = ?n\<rparr>"
  have init: "init_optimizer mean_returns cov_matrix rf = Inr ?opt"
    using ne by (simp add: init_optimizer_def)
  obtain m where m: "result_metrics ?opt (replicate ?n (1 / real ?n)) = Inr m"
    using result_metrics_ok [of "replicate ?n (1 / real ?n)" ?opt] cov by auto
  have ew: "optimize_equal_weight ?opt = Inr (replicate ?n (1 / real ?n), m)"
    using ne m by (simp add: optimize_equal_weight_def Let_def)
  have low: "ascii_lower ''equal_weight'' = ''equal_weight''" by code_simp
  have disp: "optimize ascii_lower slv ?opt ''equal_weight'' kw = optimize_equal_weight ?opt"
    for slv kw
    unfolding optimize_def low Let_def by simp
  have gen: "optimize lower slv ?opt objective kw = optimize_equal_weight ?opt"
    if "lower objective = ''equal_weight''" for lower slv kw objective
    unfolding optimize_def that Let_def by simp
  have four: "?n = 4 \<longrightarrow> optimize_equal_weight ?opt = Inr ([1 / 4, 1 / 4, 1 / 4, 1 / 4], m)"
  proof
    assume n4: "?n = 4"
    have "replicate 4 (1 / real 4) = [1 / 4, 1 / 4, 1 / 4, 1 / 4 :: real]"
      by (simp add: numeral_eq_Suc)
    then show "optimize_equal_weight ?opt = Inr ([1 / 4, 1 / 4, 1 / 4, 1 / 4], m)"
      using ew n4 by simp
  qed
  show ?thesis using init ew disp gen four by blast
qed

theorem optimize_equal_weight_closed_form_witness:
  "[2 / 25, 1 / 10, 3 / 25, 3 / 50 :: real] \<noteq> [] \<and>
   length [[1 / 25, 0, 0, 0], [0, 1 / 25, 0, 0], [0, 0, 1 / 25, 0], [0, 0, 0, 1 / 25 :: real]]
     = length [2 / 25, 1 / 10, 3 / 25, 3 / 50 :: real] \<and>
   list_all (\<lambda>row. length row = length [2 / 25, 1 / 10, 3 / 25, 3 / 50 :: real])
     [[1 / 25, 0, 0, 0], [0, 1 / 25, 0, 0], [0, 0, 1 / 25, 0], [0, 0, 0, 1 / 25 :: real]] \<and>
   length [2 / 25, 1 / 10, 3 / 25, 3 / 50 :: real] = 4 \<and>
   (\<exists>opt m. init_optimizer [2 / 25, 1 / 10, 3 / 25, 3 / 50]
        [[1 / 25, 0, 0, 0], [0, 1 / 25, 0, 0], [0, 0, 1 / 25, 0], [0, 0, 0, 1 / 25]] (1 / 50)
        = Inr opt \<and>
      optimize_equal_weight opt = Inr ([1 / 4, 1 / 4, 1 / 4, 1 / 4], m) \<and>
      optimize ascii_lower (stub_solver False) opt ''equal_weight'' no_kwargs
        = Inr ([1 / 4, 1 / 4, 1 / 4, 1 / 4], m) \<and>
      optimize ascii_lower (stub_solver False) opt ''Equal_Weight'' no_kwargs
        = Inr ([1 / 4, 1 / 4, 1 / 4, 1 / 4], m))"
proof -
  let ?mu = "[2 / 25, 1 / 10, 3 / 25, 3 / 50 :: real]"
  let ?cov = "[[1 / 25, 0, 0, 0], [0, 1 / 25, 0, 0], [0, 0, 1 / 25, 0], [0, 0, 0, 1 / 25 :: real]]"
  have h1: "?mu \<noteq> []" by simp
  have h2: "length ?cov = length ?mu" by simp
  have h3: "list_all (\<lambda>row. length row = length ?mu) ?cov" by simp
  have h4: "length ?mu = 4" by simp
  obtain opt m where i: "init_optimizer ?mu ?cov (1 / 50) = Inr opt"
    and d: "\<forall>slv kw. optimize ascii_lower slv opt ''equal_weight'' kw
                      = optimize_equal_weight opt"
    and g: "\<forall>lower slv kw objective. lower objective = ''equal_weight'' \<longrightarrow>
              optimize lower slv opt objective kw = optimize_equal_weight opt"
    and f: "length ?mu = 4 \<longrightarrow> optimize_equal_weight opt = Inr ([1 / 4, 1 / 4, 1 / 4, 1 / 4], m)"
    using optimize_equal_weight_closed_form [OF h1 h2 h3, of "1 / 50"] by blast
  from f h4 have e: "optimize_equal_weight opt = Inr ([1 / 4, 1 / 4, 1 / 4, 1 / 4], m)"
    by blast
  with d have d': "optimize ascii_lower (stub_solver False) opt ''equal_weight'' no_kwargs
        = Inr ([1 / 4, 1 / 4, 1 / 4, 1 / 4], m)"
    by simp
  have "ascii_lower ''Equal_Weight'' = ''equal_weight''" by code_simp
  with g e have g': "optimize ascii_lower (stub_solver False) opt ''Equal_Weight'' no_kwargs
        = Inr ([1 / 4, 1 / 4, 1 / 4, 1 / 4], m)"
    by simp
  with i e d' h1 h2 h3 h4 show ?thesis by blast
qed

section \<open>Dispatch on the objective name\<close>

text \<open>
  Claim C9. \<open>optimize\<close> matches the objective string through \<open>str.lower()\<close> only:
  two strings with the same lower-case form give the same result, a string whose
  lower-case form is one of the five recognised names is dispatched to the method of
  that name, and every string whose lower-case form is none of them raises ValueError,
  for every solver and all keyword arguments (no allocation is returned).
\<close>

theorem optimize_dispatch:
  "(lower objective = lower objective' \<longrightarrow>
      optimize lower slv opt objective kw = optimize lower slv opt objective' kw) \<and>
   (lower objective \<notin> {''max_sharpe'', ''min_volatility'', ''max_return'', ''risk_parity'',
                          ''equal_weight''}
      \<longrightarrow> optimize lower slv opt objective kw
            = Inl (ValueError (''Unknown objective: '' @ lower objective))) \<and>
   (lower objective = ''max_sharpe'' \<longrightarrow>
      optimize lower slv opt objective no_kwargs = optimize_max_sharpe slv opt False 0 1) \<and>
   (lower objective = ''min_volatility'' \<longrightarrow>
      optimize lower slv opt objective no_kwargs = optimize_min_volatility slv opt False 0 1) \<and>
   (lower objective = ''max_return'' \<longrightarrow>
      optimize lower slv opt objective no_kwargs
        = optimize_max_return slv opt None False 0 1) \<and>
   (lower objective = ''risk_parity'' \<longrightarrow>
      optimize lower slv opt objective no_kwargs = optimize_risk_parity slv opt 0 1) \<and>
   (lower objective = ''equal_weight'' \<longrightarrow>
      optimize lower slv opt objective kw = optimize_equal_weight opt)"
  by (simp add: optimize_def no_kwargs_def or_default_def)

theorem optimize_dispatch_witness:
  "ascii_lower ''Momentum'' \<notin> {''max_sharpe'', ''min_volatility'', ''max_return'', ''risk_parity'',
                              ''equal_weight''} \<and>
   optimize ascii_lower (stub_solver True)
      \<lparr>opt_mean_returns = [1 / 10, 1 / 5],
       opt_cov_matrix = [[1 / 25, 1 / 25], [1 / 25, 1 / 25]],
       opt_risk_free_rate = 1 / 50, opt_n_assets = 2\<rparr> ''Momentum'' no_kwargs
     = Inl (ValueError ''Unknown objective: momentum'') \<and>
   ascii_lower ''MAX_SHARPE'' = ''max_sharpe'' \<and>
   optimize ascii_lower (stub_solver True)
      \<lparr>opt_mean_returns = [1 / 10, 1 / 5],
       opt_cov_matrix = [[1 / 25, 1 / 25], [1 / 25, 1 / 25]],
       opt_risk_free_rate = 1 / 50, opt_n_assets = 2\<rparr> ''MAX_SHARPE'' no_kwargs
     = Inr ([1 / 2, 1 / 2],
            \<lparr>m_expected_return = 3 / 20, m_volatility = Fin (1 / 5),
             m_sharpe_ratio = Fin (13 / 20)\<rparr>) \<and>
   ascii_lower ''Min_Volatility'' = ''min_volatility'' \<and>
   optimize ascii_lower (stub_solver True)
      \<lparr>opt_mean_returns = [1 / 10, 1 / 5],
       opt_cov_matrix = [[1 / 25, 1 / 25], [1 / 25, 1 / 25]],
       opt_risk_free_rate = 1 / 50, opt_n_assets = 2\<rparr> ''Min_Volatility'' no_kwargs
     = Inr ([1 / 2, 1 / 2],
            \<lparr>m_expected_return = 3 / 20, m_volatility = Fin (1 / 5),
             m_sharpe_ratio = Fin (13 / 20)\<rparr>) \<and>
   ascii_lower ''max_Return'' = ''max_return'' \<and>
   optimize ascii_lower (stub_solver True)
      \<lparr>opt_mean_returns = [1 / 10, 1 / 5],
       opt_cov_matrix = [[1 / 25, 1 / 25], [1 / 25, 1 / 25]],
       opt_risk_free_rate = 1 / 50, opt_n_assets = 2\<rparr> ''max_Return'' no_kwargs
     = Inr ([1 / 2, 1 / 2],
            \<lparr>m_expected_return = 3 / 20, m_volatility = Fin (1 / 5),
             m_sharpe_ratio = Fin (13 / 20)\<rparr>) \<and>
   ascii_lower ''RISK_parity'' = ''risk_parity'' \<and>
   optimize ascii_lower (stub_solver True)
      \<lparr>opt_mean_returns = [1 / 10, 1 / 5],
       opt_cov_matrix = [[1 / 25, 1 / 25], [1 / 25, 1 / 25]],
       opt_risk_free_rate = 1 / 50, opt_n_assets = 2\<rparr> ''RISK_parity'' no_kwargs
     = Inr ([1 / 2, 1 / 2],
            \<lparr>m_expected_return = 3 / 20, m_volatility = Fin (1 / 5),
             m_sharpe_ratio = Fin (13 / 20)\<rparr>) \<and>
   ascii_lower ''Equal_Weight'' = ''equal_weight'' \<and>
   optimize ascii_lower (stub_solver True)
      \<lparr>opt_mean_returns = [1 / 10, 1 / 5],
       opt_cov_matrix = [[1 / 25, 1 / 25], [1 / 25, 1 / 25]],
       opt_risk_free_rate = 1 / 50, opt_n_assets = 2\<rparr> ''Equal_Weight'' no_kwargs
     = Inr ([1 / 2, 1 / 2],
            \<lparr>m_expected_return = 3 / 20, m_volatility = Fin (1 / 5),
             m_sharpe_ratio = Fin (13 / 20)\<rparr>) \<and>
   ascii_lower ''Max_Sharpe'' = ascii_lower ''MAX_SHARPE'' \<and>
   optimize ascii_lower (stub_solver True)
      \<lparr>opt_mean_returns = [1 / 10, 1 / 5],
       opt_cov_matrix = [[1 / 25, 1 / 25], [1 / 25, 1 / 25]],
       opt_risk_free_rate = 1 / 50, opt_n_assets = 2\<rparr> ''Max_Sharpe'' no_kwargs
     = Inr ([1 / 2, 1 / 2],
            \<lparr>m_expected_return = 3 / 20, m_volatility = Fin (1 / 5),
             m_sharpe_ratio = Fin (13 / 20)\<rparr>)"
proof -
  let ?opt = "\<lparr>opt_mean_returns = [1 / 10, 1 / 5],
       opt_cov_matrix = [[1 / 25, 1 / 25], [1 / 25, 1 / 25 :: real]],
       opt_risk_free_rate = 1 / 50, opt_n_assets = 2\<rparr>"
  let ?res = "Inr ([1 / 2, 1 / 2 :: real],
            \<lparr>m_expected_return = 3 / 20, m_volatility = Fin (1 / 5),
             m_sharpe_ratio = Fin (13 / 20)\<rparr>) :: error + real list \<times> metrics"
  have l0: "ascii_lower ''Momentum'' = ''momentum''" by code_simp
  have n0: "ascii_lower ''Momentum'' \<notin> {''max_sharpe'', ''min_volatility'', ''max_return'',
              ''risk_parity'', ''equal_weight''}"
    unfolding l0 by simp
  have "optimize ascii_lower (stub_solver True) ?opt ''Momentum'' no_kwargs
          = Inl (ValueError (''Unknown objective: '' @ ascii_lower ''Momentum''))"
    using optimize_dispatch [where lower = ascii_lower and slv = "stub_solver True"
        and opt = ?opt and objective = "''Momentum''" and kw = no_kwargs] n0
    by blast
  then have r0: "optimize ascii_lower (stub_solver True) ?opt ''Momentum'' no_kwargs
              = Inl (ValueError ''Unknown objective: momentum'')"
    unfolding l0 by simp
  have l1: "ascii_lower ''MAX_SHARPE'' = ''max_sharpe''" by code_simp
  have "optimize ascii_lower (stub_solver True) ?opt ''MAX_SHARPE'' no_kwargs
          = optimize_max_sharpe (stub_solver True) ?opt False 0 1"
    using optimize_dispatch [where lower = ascii_lower and slv = "stub_solver True"
        and opt = ?opt and objective = "''MAX_SHARPE''" and kw = no_kwargs] l1 by blast
  then have r1: "optimize ascii_lower (stub_solver True) ?opt ''MAX_SHARPE'' no_kwargs = ?res"
    by (simp only: stub_runs)
  have l2: "ascii_lower ''Min_Volatility'' = ''min_volatility''" by code_simp
  have "optimize ascii_lower (stub_solver True) ?opt ''Min_Volatility'' no_kwargs
          = optimize_min_volatility (stub_solver True) ?opt False 0 1"
    using optimize_dispatch [where lower = ascii_lower and slv = "stub_solver True"
        and opt = ?opt and objective = "''Min_Volatility''" and kw = no_kwargs] l2 by blast
  then have r2: "optimize ascii_lower (stub_solver True) ?opt ''Min_Volatility'' no_kwargs = ?res"
    by (simp only: stub_runs)
  have l3: "ascii_lower ''max_Return'' = ''max_return''" by code_simp
  have "optimize ascii_lower (stub_solver True) ?opt ''max_Return'' no_kwargs
          = optimize_max_return (stub_solver True) ?opt None False 0 1"
    using optimize_dispatch [where lower = ascii_lower and slv = "stub_solver True"
        and opt = ?opt and objective = "''max_Return''" and kw = no_kwargs] l3 by blast
  then have r3: "optimize ascii_lower (stub_solver True) ?opt ''max_Return'' no_kwargs = ?res"
    by (simp only: stub_runs)
  have l4: "ascii_lower ''RISK_parity'' = ''risk_parity''" by code_simp
  have "optimize ascii_lower (stub_solver True) ?opt ''RISK_parity'' no_kwargs
          = optimize_risk_parity (stub_solver True) ?opt 0 1"
    using optimize_dispatch [where lower = ascii_lower and slv = "stub_solver True"
        and opt = ?opt and objective = "''RISK_parity''" and kw = no_kwargs] l4 by blast
  then have r4: "optimize ascii_lower (stub_solver True) ?opt ''RISK_parity'' no_kwargs = ?res"
    by (simp only: stub_runs)
  have l5: "ascii_lower ''Equal_Weight'' = ''equal_weight''" by code_simp
  have "optimize ascii_lower (stub_solver True) ?opt ''Equal_Weight'' no_kwargs
          = optimize_equal_weight ?opt"
    using optimize_dispatch [where lower = ascii_lower and slv = "stub_solver True"
        and opt = ?opt and objective = "''Equal_Weight''" and kw = no_kwargs] l5 by blast
  then have r5: "optimize ascii_lower (stub_solver True) ?opt ''Equal_Weight'' no_kwargs = ?res"
    by (simp only: stub_runs)
  have l6: "ascii_lower ''Max_Sharpe'' = ascii_lower ''MAX_SHARPE''" by code_simp
  have "optimize ascii_lower (stub_solver True) ?opt ''Max_Sharpe'' no_kwargs
          = optimize ascii_lower (stub_solver True) ?opt ''MAX_SHARPE'' no_kwargs"
    using optimize_dispatch [where lower = ascii_lower and slv = "stub_solver True"
        and opt = ?opt and objective = "''Max_Sharpe''" and objective' = "''MAX_SHARPE''"
        and kw = no_kwargs] l6
    by blast
  then have r6: "optimize ascii_lower (stub_solver True) ?opt ''Max_Sharpe'' no_kwargs = ?res"
    using r1 by simp
  show ?thesis
    using n0 r0 l1 r1 l2 r2 l3 r3 l4 r4 l5 r5 l6 r6 by blast
qed

section \<open>Monte Carlo simulation\<close>

lemma foldl_upt_invariant:
  assumes base: "I 0 s"
    and step: "\<And>j t. j < n \<Longrightarrow> I j t \<Longrightarrow> I (Suc j) (f t j)"
  shows "m \<le> n \<Longrightarrow> I m (foldl f s [0..<m])"
proof (induction m)
  case 0
  then show ?case using base by simp
next
  case (Suc m)
  then have "I m (foldl f s [0..<m])" and "m < n" by simp_all
  then have "I (Suc m) (f (foldl f s [0..<m]) m)" using step by blast
  then show ?case by simp
qed

lemma np_percentile_ext_ok:
  "a \<noteq> [] \<Longrightarrow> 0 \<le> q \<Longrightarrow> q \<le> 100 \<Longrightarrow> \<exists>v. np_percentile_ext a q = Inr v"
  by (simp add: np_percentile_ext_def Let_def)

lemma sim_loop_length:
  "foldl (sim_step z mu sd c init years) (k0, fv0, ps0) xs = (k, fv, ps)
     \<Longrightarrow> length fv = length fv0"
proof (induction xs arbitrary: k0 fv0 ps0)
  case Nil
  then show ?case by simp
next
  case (Cons x xs)
  obtain k1 fv1 ps1 where st: "sim_step z mu sd c init years (k0, fv0, ps0) x = (k1, fv1, ps1)"
    using prod_cases3 by blast
  then have "length fv1 = length fv0"
    by (auto simp: sim_step_def split: prod.splits)
  moreover have "length fv = length fv1"
    using Cons.prems Cons.IH [of k1 fv1 ps1] by (simp add: st)
  ultimately show ?case by simp
qed

lemma simulate_portfolio_returns:
  assumes d1: "np_dot weights (mc_mean_returns sim) = Inr pr"
    and d2: "np_matvec (mc_cov_matrix sim) weights = Inr cw"
    and d3: "np_dot weights cw = Inr pv"
    and n1: "1 \<le> n" and y0: "0 \<le> years"
    and run: "foldl (sim_step z pr (np_sqrt pv) c init (nat years))
             (0, replicate (nat n) (Fin 0),
              replicate (nat n) (Fin init # replicate (nat years) (Fin 0))) [0..<nat n]
             = (k, fv, ps)"
  shows "\<exists>r. simulate_portfolio z sim weights init years n c = Inr r \<and>
           sim_final_values r = fv \<and> sim_paths r = ps \<and>
           sim_portfolio_return r = pr \<and> sim_portfolio_std r = np_sqrt pv"
proof -
  have "length fv = nat n" using sim_loop_length [OF run] by simp
  then have ne: "fv \<noteq> []" using n1 by auto
  obtain p10 p25 p50 p75 p90 v5 where
    p: "np_percentile_ext fv 10 = Inr p10" "np_percentile_ext fv 25 = Inr p25"
      "np_percentile_ext fv 50 = Inr p50" "np_percentile_ext fv 75 = Inr p75"
      "np_percentile_ext fv 90 = Inr p90" "np_percentile_ext fv 5 = Inr v5"
    using np_percentile_ext_ok [OF ne, of 10] np_percentile_ext_ok [OF ne, of 25]
      np_percentile_ext_ok [OF ne, of 50] np_percentile_ext_ok [OF ne, of 75]
      np_percentile_ext_ok [OF ne, of 90] np_percentile_ext_ok [OF ne, of 5]
    by auto
  have guards: "\<not> (n < 0 \<or> years + 1 < 0)" "years + 1 \<noteq> 0"
    using n1 y0 by auto
  show ?thesis
    unfolding simulate_portfolio_def d1 d2 d3 ebind_Inr Let_def run prod.case p
    using guards by simp
qed

text \<open>Without any simulation the call raises at the first percentile.\<close>

lemma simulate_portfolio_no_simulations:
  assumes d1: "np_dot weights (mc_mean_returns sim) = Inr pr"
    and d2: "np_matvec (mc_cov_matrix sim) weights = Inr cw"
    and d3: "np_dot weights cw = Inr pv"
    and y0: "0 \<le> years"
  shows "simulate_portfolio z sim weights init years 0 c
           = Inl (IndexError ''index -1 is out of bounds for axis 0 with size 0'')"
  using y0 unfolding simulate_portfolio_def d1 d2 d3 ebind_Inr Let_def
  by (simp add: np_percentile_ext_def)

lemma year_loop_degenerate:
  "foldl (year_step z 0 (Fin 0) 0) (k, Fin v, row) ys = (k', value, row') \<Longrightarrow> value = Fin v"
proof (induction ys arbitrary: k row)
  case Nil
  then show ?case by simp
next
  case (Cons y ys)
  have "year_step z 0 (Fin 0) 0 (k, Fin v, row) y = (Suc k, Fin v, row[y := Fin v])"
    by (simp add: year_step_def random_normal_def Let_def)
  with Cons show ?case by simp
qed

lemma sim_loop_degenerate:
  assumes run: "foldl (sim_step z 0 (Fin 0) 0 init years) (0, replicate n (Fin 0), ps0) [0..<n]
                  = (k', fv', ps')"
  shows "fv' = replicate n (Fin init)"
proof -
  let ?I = "\<lambda>j st. case st of (k :: nat, fv, ps :: npfloat list list) \<Rightarrow>
      length fv = n \<and> (\<forall>i<j. fv ! i = Fin init)"
  let ?s0 = "(0 :: nat, replicate n (Fin 0), ps0)"
  have base: "?I 0 ?s0" by simp
  have step: "?I (Suc j) (sim_step z 0 (Fin 0) 0 init years t j)" if j: "j < n" and inv: "?I j t" for j t
  proof -
    obtain k fv ps where t: "t = (k, fv, ps)" by (cases t) auto
    obtain k' v row where inner:
      "foldl (year_step z 0 (Fin 0) 0) (k, Fin init, ps ! j) [1..<Suc years] = (k', v, row)"
      using prod_cases3 by blast
    have v: "v = Fin init" using year_loop_degenerate [OF inner] .
    have res: "sim_step z 0 (Fin 0) 0 init years t j = (k', fv[j := v], ps[j := row])"
      unfolding sim_step_def t prod.case inner by simp
    have lens: "length fv = n" and prev: "\<forall>i<j. fv ! i = Fin init"
      using inv t by simp_all
    have "\<forall>i<Suc j. fv[j := v] ! i = Fin init"
      using prev lens j v by (auto simp: nth_list_update less_Suc_eq)
    then show ?thesis using lens by (simp add: res)
  qed
  have "?I n (foldl (sim_step z 0 (Fin 0) 0 init years) ?s0 [0..<n])"
    using foldl_upt_invariant [of ?I ?s0 n "sim_step z 0 (Fin 0) 0 init years" n, OF base step]
    by simp
  then show ?thesis unfolding run
    by (auto simp: list_eq_iff_nth_eq)
qed

lemma portfolio_volatility_zero:
  assumes "portfolio_volatility weights cov = Inr (Fin 0)"
  shows "\<exists>cw. np_matvec cov weights = Inr cw \<and> np_dot weights cw = Inr 0"
proof -
  from assms obtain cw q where a: "np_matvec cov weights = Inr cw"
    and b: "np_dot weights cw = Inr q" and c: "np_sqrt q = Fin 0"
    by (auto simp: portfolio_volatility_def ebind_eq_Inr)
  from c have "q = 0" by (auto simp: np_sqrt_def split: if_splits)
  with a b show ?thesis by blast
qed

lemma year_loop_row:
  "foldl (year_step z mu sd c) (k, v0, row) [1..<Suc j] = (k', value, row') \<Longrightarrow>
     length row' = length row \<and> row' ! 0 = row ! 0 \<and>
     (1 \<le> j \<and> j < length row \<longrightarrow> row' ! j = value)"
proof (induction j arbitrary: k' "value" row')
  case 0
  then show ?case by simp
next
  case (Suc j)
  obtain k1 v1 r1 where mid: "foldl (year_step z mu sd c) (k, v0, row) [1..<Suc j] = (k1, v1, r1)"
    by (cases "foldl (year_step z mu sd c) (k, v0, row) [1..<Suc j]") auto
  have ih: "length r1 = length row \<and> r1 ! 0 = row ! 0"
    using Suc.IH [OF mid] by simp
  have "[1..<Suc (Suc j)] = [1..<Suc j] @ [Suc j]" by simp
  then have "foldl (year_step z mu sd c) (k, v0, row) [1..<Suc (Suc j)]
      = year_step z mu sd c (k1, v1, r1) (Suc j)"
    using mid by (simp only: foldl_append foldl.simps)
  with Suc.prems have st: "year_step z mu sd c (k1, v1, r1) (Suc j) = (k', value, row')"
    by simp
  then have "row' = r1[Suc j := value]"
    by (auto simp: year_step_def random_normal_def Let_def)
  with ih show ?case by simp
qed

lemma sim_loop_consistent:
  assumes y1: "1 \<le> years"
    and run: "foldl (sim_step z mu sd c init years)
                (0, replicate n (Fin 0), replicate n (Fin init # replicate years (Fin 0))) [0..<n]
              = (k', fv', ps')"
  shows "length fv' = n \<and> length ps' = n \<and>
           (\<forall>i<n. length (ps' ! i) = Suc years \<and> ps' ! i ! 0 = Fin init \<and>
              ps' ! i ! years = fv' ! i)"
proof -
  let ?I = "\<lambda>j st. case st of (k :: nat, fv, ps) \<Rightarrow>
      length fv = n \<and> length ps = n \<and>
      (\<forall>i<n. length (ps ! i) = Suc years \<and> ps ! i ! 0 = Fin init) \<and>
      (\<forall>i<j. ps ! i ! years = fv ! i)"
  let ?s0 = "(0 :: nat, replicate n (Fin 0), replicate n (Fin init # replicate years (Fin 0)))"
  have base: "?I 0 ?s0" by simp
  have step: "?I (Suc j) (sim_step z mu sd c init years t j)" if j: "j < n" and inv: "?I j t" for j t
  proof -
    obtain k fv ps where t: "t = (k, fv, ps)" by (cases t) auto
    obtain k' v row where inner:
      "foldl (year_step z mu sd c) (k, Fin init, ps ! j) [1..<Suc years] = (k', v, row)"
      by (cases "foldl (year_step z mu sd c) (k, Fin init, ps ! j) [1..<Suc years]") auto
    have lens: "length fv = n" "length ps = n"
      and rows: "\<forall>i<n. length (ps ! i) = Suc years \<and> ps ! i ! 0 = Fin init"
      and prev: "\<forall>i<j. ps ! i ! years = fv ! i"
      using inv t by simp_all
    have rj: "length (ps ! j) = Suc years" "ps ! j ! 0 = Fin init"
      using rows j by simp_all
    have row: "length row = Suc years" "row ! 0 = Fin init" "row ! years = v"
      using year_loop_row [OF inner] rj y1 by simp_all
    have res: "sim_step z mu sd c init years t j = (k', fv[j := v], ps[j := row])"
      unfolding sim_step_def t prod.case inner by simp
    have a: "\<forall>i<n. length (ps[j := row] ! i) = Suc years \<and> ps[j := row] ! i ! 0 = Fin init"
      using rows row lens j by (auto simp: nth_list_update)
    have b: "\<forall>i<Suc j. ps[j := row] ! i ! years = fv[j := v] ! i"
      using prev row lens j by (auto simp: nth_list_update less_Suc_eq)
    show ?thesis using lens a b by (simp add: res)
  qed
  have "?I n (foldl (sim_step z mu sd c init years) ?s0 [0..<n])"
    using foldl_upt_invariant [of ?I ?s0 n "sim_step z mu sd c init years" n, OF base step]
    by simp
  then show ?thesis unfolding run by simp
qed

lemma simulate_portfolio_InrD:
  assumes "simulate_portfolio z sim weights init years n c = Inr r"
  shows "\<exists>pr cw pv. np_dot weights (mc_mean_returns sim) = Inr pr \<and>
           np_matvec (mc_cov_matrix sim) weights = Inr cw \<and>
           np_dot weights cw = Inr pv \<and> 1 \<le> n \<and> 0 \<le> years"
proof -
  from assms obtain pr cw pv where d1: "np_dot weights (mc_mean_returns sim) = Inr pr"
    and d2: "np_matvec (mc_cov_matrix sim) weights = Inr cw"
    and d3: "np_dot weights cw = Inr pv"
    unfolding simulate_portfolio_def ebind_eq_Inr by blast
  have y0: "0 \<le> years"
  proof (rule ccontr)
    assume "\<not> 0 \<le> years"
    then have "years + 1 < 0 \<or> years + 1 = 0" by linarith
    then have "\<exists>e. simulate_portfolio z sim weights init years n c = Inl e"
      unfolding simulate_portfolio_def d1 d2 d3 ebind_Inr Let_def by auto
    with assms show False by auto
  qed
  have n1: "1 \<le> n"
  proof (rule ccontr)
    assume "\<not> 1 \<le> n"
    then consider "n < 0" | "n = 0" by linarith
    then have "\<exists>e. simulate_portfolio z sim weights init years n c = Inl e"
    proof cases
      case 1
      then show ?thesis
        unfolding simulate_portfolio_def d1 d2 d3 ebind_Inr Let_def by simp
    next
      case 2
      then show ?thesis
        using simulate_portfolio_no_simulations [OF d1 d2 d3 y0] by simp
    qed
    with assms show False by auto
  qed
  show ?thesis using d1 d2 d3 n1 y0 by blast
qed

lemma year_loop_finite:
  "foldl (year_step z mu (Fin sd) c) (k, Fin v, row) ys = (k', value, row')
     \<Longrightarrow> \<exists>u. value = Fin u"
proof (induction ys arbitrary: k v row)
  case Nil
  then show ?case by auto
next
  case (Cons y ys)
  have "\<exists>k1 v1 row1. year_step z mu (Fin sd) c (k, Fin v, row) y = (k1, Fin v1, row1)"
    by (simp add: year_step_def random_normal_def Let_def)
  then obtain k1 v1 row1
    where "year_step z mu (Fin sd) c (k, Fin v, row) y = (k1, Fin v1, row1)" by blast
  with Cons show ?case by simp
qed

lemma sim_loop_finite:
  assumes fin0: "\<forall>v \<in> set fv0. \<exists>u. v = Fin u"
    and run: "foldl (sim_step z mu (Fin sd) c init years) (k0, fv0, ps0) xs = (k, fv, ps)"
  shows "\<forall>v \<in> set fv. \<exists>u. v = Fin u"
  using fin0 run
proof (induction xs arbitrary: k0 fv0 ps0)
  case Nil
  then show ?case by simp
next
  case (Cons x xs)
  obtain k1 v1 row1 where inner:
    "foldl (year_step z mu (Fin sd) c) (k0, Fin init, ps0 ! x) [1..<Suc years] = (k1, v1, row1)"
    using prod_cases3 by blast
  obtain u where u: "v1 = Fin u" using year_loop_finite [OF inner] by blast
  have st: "sim_step z mu (Fin sd) c init years (k0, fv0, ps0) x
              = (k1, fv0[x := v1], ps0[x := row1])"
    unfolding sim_step_def prod.case inner by simp
  have "set (fv0[x := v1]) \<subseteq> insert v1 (set fv0)"
    by (rule set_update_subset_insert)
  then have "\<forall>v \<in> set (fv0[x := v1]). \<exists>u. v = Fin u"
    using Cons.prems(1) u by blast
  then show ?case
    using Cons.IH [of "fv0[x := v1]" k1 "ps0[x := row1]"] Cons.prems(2) by (simp add: st)
qed

text \<open>
  Claim C6. When the portfolio mean return \<open>w'\<mu>\<close> is 0, the portfolio standard
  deviation \<open>sqrt(w'\<Sigma>w)\<close> is 0 and the annual contribution is 0, the simulation
  returns for every number of simulations of at least one and every horizon, and in
  every result it returns all final values are the initial investment, whatever the
  random stream \<open>z\<close>.
\<close>

theorem simulate_portfolio_degenerate:
  assumes mu0: "np_dot weights (mc_mean_returns sim) = Inr 0"
    and sd0: "portfolio_volatility weights (mc_cov_matrix sim) = Inr (Fin 0)"
  shows "(1 \<le> n_simulations \<and> 0 \<le> time_horizon_years \<longrightarrow>
           (\<exists>r. simulate_portfolio z sim weights initial_investment time_horizon_years
                  n_simulations 0 = Inr r)) \<and>
         (\<forall>r. simulate_portfolio z sim weights initial_investment time_horizon_years
                  n_simulations 0 = Inr r \<longrightarrow>
              sim_portfolio_return r = 0 \<and> sim_portfolio_std r = Fin 0 \<and>
              sim_final_values r = replicate (nat n_simulations) (Fin initial_investment))"
proof -
  obtain cw where d2: "np_matvec (mc_cov_matrix sim) weights = Inr cw"
    and d3: "np_dot weights cw = Inr 0"
    using portfolio_volatility_zero [OF sd0] by blast
  have s0: "np_sqrt 0 = Fin 0" by (simp add: np_sqrt_def)
  have main: "\<exists>r. simulate_portfolio z sim weights initial_investment time_horizon_years
                  n_simulations 0 = Inr r \<and>
              sim_portfolio_return r = 0 \<and> sim_portfolio_std r = Fin 0 \<and>
              sim_final_values r = replicate (nat n_simulations) (Fin initial_investment)"
    if n1: "1 \<le> n_simulations" and y0: "0 \<le> time_horizon_years"
  proof -
    obtain k fv ps where
      f: "foldl (sim_step z 0 (np_sqrt 0) 0 initial_investment (nat time_horizon_years))
             (0, replicate (nat n_simulations) (Fin 0),
              replicate (nat n_simulations)
                (Fin initial_investment # replicate (nat time_horizon_years) (Fin 0)))
             [0..<nat n_simulations] = (k, fv, ps)"
      using prod_cases3 by blast
    have fv: "fv = replicate (nat n_simulations) (Fin initial_investment)"
      using f unfolding s0 by (rule sim_loop_degenerate)
    from simulate_portfolio_returns [OF mu0 d2 d3 n1 y0 f] fv s0
    show ?thesis by auto
  qed
  have a: "1 \<le> n_simulations \<and> 0 \<le> time_horizon_years \<longrightarrow>
           (\<exists>r. simulate_portfolio z sim weights initial_investment time_horizon_years
                  n_simulations 0 = Inr r)"
    using main by blast
  have b: "sim_portfolio_return r = 0 \<and> sim_portfolio_std r = Fin 0 \<and>
           sim_final_values r = replicate (nat n_simulations) (Fin initial_investment)"
    if r: "simulate_portfolio z sim weights initial_investment time_horizon_years
             n_simulations 0 = Inr r" for r
  proof -
    have "1 \<le> n_simulations" "0 \<le> time_horizon_years"
      using simulate_portfolio_InrD [OF r] by auto
    from main [OF this] r show ?thesis by auto
  qed
  show ?thesis using a b by blast
qed

theorem simulate_portfolio_degenerate_witness:
  "np_dot [1 / 2, 1 / 2] (mc_mean_returns (init_simulator [1 / 10, - 1 / 10] [[0, 0], [0, 0]]))
     = Inr 0 \<and>
   portfolio_volatility [1 / 2, 1 / 2]
     (mc_cov_matrix (init_simulator [1 / 10, - 1 / 10] [[0, 0], [0, 0]])) = Inr (Fin 0) \<and>
   (1 :: int) \<le> 100 \<and> (0 :: int) \<le> 5 \<and>
   (\<exists>r. simulate_portfolio (\<lambda>k. real k) (init_simulator [1 / 10, - 1 / 10] [[0, 0], [0, 0]])
          [1 / 2, 1 / 2] 10000 5 100 0 = Inr r \<and>
        sim_final_values r = replicate 100 (Fin 10000))"
proof -
  let ?sim = "init_simulator [1 / 10, - 1 / 10] [[0, 0], [0, 0]]"
  have h1: "np_dot [1 / 2, 1 / 2] (mc_mean_returns ?sim) = Inr 0"
    by (simp add: init_simulator_def np_dot_def)
  have h2: "portfolio_volatility [1 / 2, 1 / 2] (mc_cov_matrix ?sim) = Inr (Fin 0)"
    by (simp add: init_simulator_def portfolio_volatility_def np_matvec_def np_dot_def
        np_sqrt_def)
  have h3: "(1 :: int) \<le> 100" and h4: "(0 :: int) \<le> 5" by simp_all
  note t = simulate_portfolio_degenerate [OF h1 h2, of 100 5 "\<lambda>k. real k" 10000]
  from t h3 h4 obtain r
    where r: "simulate_portfolio (\<lambda>k. real k) ?sim [1 / 2, 1 / 2] 10000 5 100 0 = Inr r"
    by blast
  with t have "sim_final_values r = replicate (nat 100) (Fin 10000)" by blast
  then have "sim_final_values r = replicate 100 (Fin 10000)" by simp
  with r h1 h2 show ?thesis by auto
qed

text \<open>
  Claim C10. A simulation call with well-shaped statistics, at least one simulation and a
  horizon of at least one year returns; and in every result returned for a horizon of at
  least one year both arrays have one entry per simulation, each path row has
  \<open>years + 1\<close> entries, starts at the initial investment and ends at the value stored
  as that simulation's final value. When the portfolio variance is not negative these
  entries are finite, so that they are also equal under numpy's \<open>==\<close>.
\<close>

theorem simulate_portfolio_paths_consistent:
  "(length weights = length (mc_mean_returns sim) \<and>
    length (mc_cov_matrix sim) = length weights \<and>
    list_all (\<lambda>row. length row = length weights) (mc_cov_matrix sim) \<and>
    1 \<le> n_simulations \<and> 1 \<le> time_horizon_years \<longrightarrow>
      (\<exists>r. simulate_portfolio z sim weights initial_investment time_horizon_years
             n_simulations annual_contribution = Inr r)) \<and>
   (\<forall>r. simulate_portfolio z sim weights initial_investment time_horizon_years
            n_simulations annual_contribution = Inr r \<and> 1 \<le> time_horizon_years \<longrightarrow>
        length (sim_final_values r) = nat n_simulations \<and>
        length (sim_paths r) = nat n_simulations \<and>
        (\<forall>s < nat n_simulations.
           length (sim_paths r ! s) = nat time_horizon_years + 1 \<and>
           sim_paths r ! s ! 0 = Fin initial_investment \<and>
           sim_paths r ! s ! nat time_horizon_years = sim_final_values r ! s \<and>
           ((\<exists>sd. portfolio_volatility weights (mc_cov_matrix sim) = Inr (Fin sd)) \<longrightarrow>
              np_eq (sim_paths r ! s ! 0) (Fin initial_investment) \<and>
              np_eq (sim_paths r ! s ! nat time_horizon_years) (sim_final_values r ! s))))"
proof -
  let ?call = "simulate_portfolio z sim weights initial_investment time_horizon_years
                 n_simulations annual_contribution"
  have main: "\<exists>r. ?call = Inr r \<and>
        length (sim_final_values r) = nat n_simulations \<and>
        length (sim_paths r) = nat n_simulations \<and>
        (\<forall>s < nat n_simulations.
           length (sim_paths r ! s) = nat time_horizon_years + 1 \<and>
           sim_paths r ! s ! 0 = Fin initial_investment \<and>
           sim_paths r ! s ! nat time_horizon_years = sim_final_values r ! s \<and>
           ((\<exists>sd. portfolio_volatility weights (mc_cov_matrix sim) = Inr (Fin sd)) \<longrightarrow>
              np_eq (sim_paths r ! s ! 0) (Fin initial_investment) \<and>
              np_eq (sim_paths r ! s ! nat time_horizon_years) (sim_final_values r ! s)))"
    if d1: "np_dot weights (mc_mean_returns sim) = Inr pr"
      and d2: "np_matvec (mc_cov_matrix sim) weights = Inr cw"
      and d3: "np_dot weights cw = Inr pv"
      and n1: "1 \<le> n_simulations" and y1: "1 \<le> time_horizon_years" for pr cw pv
  proof -
    have y0: "0 \<le> time_horizon_years" using y1 by simp
    obtain k fv ps where
      f: "foldl (sim_step z pr (np_sqrt pv) annual_contribution initial_investment
                 (nat time_horizon_years))
             (0, replicate (nat n_simulations) (Fin 0),
              replicate (nat n_simulations)
                (Fin initial_investment # replicate (nat time_horizon_years) (Fin 0)))
             [0..<nat n_simulations] = (k, fv, ps)"
      using prod_cases3 by blast
    obtain r where r: "?call = Inr r" and rf: "sim_final_values r = fv"
      and rp: "sim_paths r = ps"
      using simulate_portfolio_returns [OF d1 d2 d3 n1 y0 f] by blast
    have "1 \<le> nat time_horizon_years" using y1 by simp
    from sim_loop_consistent [OF this f]
    have cons: "length fv = nat n_simulations" "length ps = nat n_simulations"
      "\<forall>i<nat n_simulations. length (ps ! i) = Suc (nat time_horizon_years) \<and>
           ps ! i ! 0 = Fin initial_investment \<and> ps ! i ! nat time_horizon_years = fv ! i"
      by simp_all
    have vol: "portfolio_volatility weights (mc_cov_matrix sim) = Inr (np_sqrt pv)"
      by (simp add: portfolio_volatility_def d2 d3)
    have fin: "np_eq (ps ! i ! 0) (Fin initial_investment) \<and>
               np_eq (ps ! i ! nat time_horizon_years) (fv ! i)"
      if i: "i < nat n_simulations"
        and sd: "\<exists>sd. portfolio_volatility weights (mc_cov_matrix sim) = Inr (Fin sd)" for i
    proof -
      from sd vol obtain sd where sq: "np_sqrt pv = Fin sd" by auto
      have "\<forall>v \<in> set fv. \<exists>u. v = Fin u"
        using f unfolding sq by (rule sim_loop_finite [rotated]) simp
      moreover have "fv ! i \<in> set fv" using i cons(1) by simp
      ultimately obtain u where "fv ! i = Fin u" by blast
      then show ?thesis using cons(3) i by simp
    qed
    show ?thesis
      using r rf rp cons fin by auto
  qed
  have a: "\<exists>r. ?call = Inr r"
    if w: "length weights = length (mc_mean_returns sim)"
      and c1: "length (mc_cov_matrix sim) = length weights"
      and c2: "list_all (\<lambda>row. length row = length weights) (mc_cov_matrix sim)"
      and n1: "1 \<le> n_simulations" and y1: "1 \<le> time_horizon_years"
  proof -
    have d1: "np_dot weights (mc_mean_returns sim)
                = Inr (sum_list (map2 (*) weights (mc_mean_returns sim)))"
      using w by (simp add: np_dot_def)
    let ?cw = "map (\<lambda>row. sum_list (map2 (*) row weights)) (mc_cov_matrix sim)"
    have d2: "np_matvec (mc_cov_matrix sim) weights = Inr ?cw"
      using c2 by (simp add: np_matvec_def)
    have d3: "np_dot weights ?cw = Inr (sum_list (map2 (*) weights ?cw))"
      using c1 by (simp add: np_dot_def)
    from main [OF d1 d2 d3 n1 y1] show ?thesis by blast
  qed
  have b: "length (sim_final_values r) = nat n_simulations \<and>
        length (sim_paths r) = nat n_simulations \<and>
        (\<forall>s < nat n_simulations.
           length (sim_paths r ! s) = nat time_horizon_years + 1 \<and>
           sim_paths r ! s ! 0 = Fin initial_investment \<and>
           sim_paths r ! s ! nat time_horizon_years = sim_final_values r ! s \<and>
           ((\<exists>sd. portfolio_volatility weights (mc_cov_matrix sim) = Inr (Fin sd)) \<longrightarrow>
              np_eq (sim_paths r ! s ! 0) (Fin initial_investment) \<and>
              np_eq (sim_paths r ! s ! nat time_horizon_years) (sim_final_values r ! s)))"
    if r: "?call = Inr r" and y1: "1 \<le> time_horizon_years" for r
  proof -
    obtain pr cw pv where d: "np_dot weights (mc_mean_returns sim) = Inr pr"
      "np_matvec (mc_cov_matrix sim) weights = Inr cw" "np_dot weights cw = Inr pv"
      and n1: "1 \<le> n_simulations"
      using simulate_portfolio_InrD [OF r] by blast
    from main [OF d n1 y1] r show ?thesis by auto
  qed
  show ?thesis using a b by blast
qed

theorem simulate_portfolio_paths_consistent_witness:
  "length [1 :: real] = length (mc_mean_returns (init_simulator [1 / 10] [[1 / 25]])) \<and>
   length (mc_cov_matrix (init_simulator [1 / 10] [[1 / 25]])) = length [1 :: real] \<and>
   list_all (\<lambda>row. length row = length [1 :: real])
     (mc_cov_matrix (init_simulator [1 / 10] [[1 / 25]])) \<and>
   (1 :: int) \<le> 2 \<and> (1 :: int) \<le> 3 \<and>
   portfolio_volatility [1] (mc_cov_matrix (init_simulator [1 / 10] [[1 / 25]]))
     = Inr (Fin (1 / 5)) \<and>
   (\<exists>r. simulate_portfolio (\<lambda>k. real k / 10) (init_simulator [1 / 10] [[1 / 25]])
          [1] 1000 3 2 100 = Inr r \<and>
        length (sim_final_values r) = 2 \<and> length (sim_paths r) = 2 \<and>
        sim_paths r ! 0 ! 0 = Fin 1000 \<and> sim_paths r ! 0 ! 3 = sim_final_values r ! 0 \<and>
        np_eq (sim_paths r ! 0 ! 3) (sim_final_values r ! 0) \<and>
        sim_paths r ! 1 ! 0 = Fin 1000 \<and> sim_paths r ! 1 ! 3 = sim_final_values r ! 1 \<and>
        np_eq (sim_paths r ! 1 ! 3) (sim_final_values r ! 1))"
proof -
  let ?sim = "init_simulator [1 / 10] [[1 / 25]]"
  let ?z = "\<lambda>k. real k / 10"
  have h1: "length [1 :: real] = length (mc_mean_returns ?sim)"
    by (simp add: init_simulator_def)
  have h2: "length (mc_cov_matrix ?sim) = length [1 :: real]"
    by (simp add: init_simulator_def)
  have h3: "list_all (\<lambda>row. length row = length [1 :: real]) (mc_cov_matrix ?sim)"
    by (simp add: init_simulator_def)
  have h4: "(1 :: int) \<le> 2" and h5: "(1 :: int) \<le> 3" by simp_all
  have vol: "portfolio_volatility [1] (mc_cov_matrix ?sim) = Inr (Fin (1 / 5))"
    by (simp add: init_simulator_def portfolio_volatility_def np_matvec_def np_dot_def
        np_sqrt_def sqrt_1_25)
  note t = simulate_portfolio_paths_consistent [where z = ?z and sim = ?sim
      and weights = "[1]" and initial_investment = 1000 and time_horizon_years = 3
      and n_simulations = 2 and annual_contribution = 100]
  from t h1 h2 h3 h4 h5 obtain r
    where r: "simulate_portfolio ?z ?sim [1] 1000 3 2 100 = Inr r"
    by blast
  from t r h5 have l: "length (sim_final_values r) = nat 2" "length (sim_paths r) = nat 2"
    and rows: "\<forall>s < nat 2. length (sim_paths r ! s) = nat 3 + 1 \<and>
                sim_paths r ! s ! 0 = Fin 1000 \<and>
                sim_paths r ! s ! nat 3 = sim_final_values r ! s \<and>
                ((\<exists>sd. portfolio_volatility [1] (mc_cov_matrix ?sim) = Inr (Fin sd)) \<longrightarrow>
                   np_eq (sim_paths r ! s ! 0) (Fin 1000) \<and>
                   np_eq (sim_paths r ! s ! nat 3) (sim_final_values r ! s))"
    by blast+
  have n2: "nat 2 = 2" and n3: "nat 3 = 3" by simp_all
  have i0: "(0 :: nat) < 2" and i1: "(1 :: nat) < 2" by simp_all
  have ex: "\<exists>sd. portfolio_volatility [1] (mc_cov_matrix ?sim) = Inr (Fin sd)"
    using vol by blast
  have r0: "sim_paths r ! 0 ! 0 = Fin 1000 \<and> sim_paths r ! 0 ! 3 = sim_final_values r ! 0 \<and>
            np_eq (sim_paths r ! 0 ! 3) (sim_final_values r ! 0)"
    using rows [unfolded n2 n3, rule_format, OF i0] ex by blast
  have r1: "sim_paths r ! 1 ! 0 = Fin 1000 \<and> sim_paths r ! 1 ! 3 = sim_final_values r ! 1 \<and>
            np_eq (sim_paths r ! 1 ! 3) (sim_final_values r ! 1)"
    using rows [unfolded n2 n3, rule_format, OF i1] ex by blast
  show ?thesis using h1 h2 h3 h4 h5 vol r l [unfolded n2] r0 r1 by blast
qed

section \<open>Drift detection\<close>





end
